theory Spec2Isabelle
  imports Main
begin

section \<open>Data model of \<open>lib/db.js\<close>\<close>

text \<open>
  JavaScript values that occur as attribute values of requests and rows. A property
  that is not set reads as \<open>JUndefined\<close>. Numbers are the integers the code
  counts with (row counts, offsets, millisecond timestamps).
\<close>

datatype jsval = JUndefined | JNull | JBool bool | JNum int | JStr string

text \<open>JavaScript truthiness, as tested by \<open>!x\<close>, \<open>x || y\<close> and \<open>if (x)\<close>.\<close>

fun truthy :: "jsval \<Rightarrow> bool" where
  "truthy JUndefined = False"
| "truthy JNull = False"
| "truthy (JBool b) = b"
| "truthy (JNum n) = (n \<noteq> 0)"
| "truthy (JStr s) = (s \<noteq> [])"

text \<open>
  A plain object (a row, an attribute map) is an association list in insertion order:
  \<open>o[k]\<close> is \<open>obj_get\<close>, \<open>o[k] = v\<close> is \<open>obj_set\<close> (overwrite in place, or append
  a new key), \<open>delete o[k]\<close> is \<open>obj_delete\<close>.
\<close>

type_synonym obj = "(string \<times> jsval) list"

definition obj_get :: "obj \<Rightarrow> string \<Rightarrow> jsval" where
  "obj_get ob k = (case map_of ob k of None \<Rightarrow> JUndefined | Some v \<Rightarrow> v)"

fun obj_set :: "obj \<Rightarrow> string \<Rightarrow> jsval \<Rightarrow> obj" where
  "obj_set [] k v = [(k, v)]"
| "obj_set ((k', v') # kvs) k v =
     (if k' = k then (k, v) # kvs else (k', v') # obj_set kvs k v)"

definition obj_delete :: "obj \<Rightarrow> string \<Rightarrow> obj" where
  "obj_delete ob k = filter (\<lambda>kv. fst kv \<noteq> k) ob"

text \<open>
  Decimal printing, for \<open>Number.prototype.toString\<close>. The recursion is on a fuel
  argument that bounds the number of digits; \<open>show_nat\<close> supplies enough of it.
\<close>

fun show_digits :: "nat \<Rightarrow> nat \<Rightarrow> string" where
  "show_digits 0 n = []"
| "show_digits (Suc f) n =
     (if n < 10 then [char_of (48 + n)]
      else show_digits f (n div 10) @ [char_of (48 + n mod 10)])"

definition show_nat :: "nat \<Rightarrow> string" where
  "show_nat n = show_digits (Suc n) n"

definition show_int :: "int \<Rightarrow> string" where
  "show_int i = (if i < 0 then CHR ''-'' # show_nat (nat (- i)) else show_nat (nat i))"

text \<open>
  \<open>v.toString()\<close>. On \<open>undefined\<close> and \<open>null\<close> the call raises a TypeError (\<open>None\<close>).
\<close>

fun js_toString :: "jsval \<Rightarrow> string option" where
  "js_toString JUndefined = None"
| "js_toString JNull = None"
| "js_toString (JBool b) = Some (if b then ''true'' else ''false'')"
| "js_toString (JNum n) = Some (show_int n)"
| "js_toString (JStr s) = Some s"

subsection \<open>Errors\<close>

text \<open>
  A value thrown by a collaborator (the execution engine, a converter). The read path
  inspects only whether it is an object and the \<open>code\<close> of its \<open>cause\<close>; the message is
  what the engine's driver reports with it.
\<close>

record cause =
  cause_code :: string
  cause_message :: string

record thrown =
  thrown_isObject :: bool
  thrown_cause :: "cause option"

text \<open>
  The compiled schema, \<open>dbu.makeSchemaInfo(...)\<close>: the fields \<open>db.js\<close> reads.
  \<open>si_attributes\<close> maps an attribute to the name of its type (\<open>None\<close>: the schema
  has no \<open>attributes\<close>), \<open>si_converters\<close> maps a type name to the \<open>read\<close> function of
  its converter.
\<close>

record revisionRetentionPolicy =
  rp_type :: string
  rp_count :: nat
  rp_grace_ttl :: int

record schemaInfo =
  si_attributes :: "(string \<times> string) list option"
  si_converters :: "string \<Rightarrow> (jsval \<Rightarrow> thrown + jsval) option"
  si_iKeys :: "string list"
  si_tid :: string
  si_hash :: string
  si_revisionRetentionPolicy :: revisionRetentionPolicy

text \<open>The body of a \<open>dbu.HTTPError\<close>, with the two optional fields of the 400.\<close>

record httpError =
  he_status :: nat
  he_type :: string
  he_title :: string
  he_keyspace :: "string option"
  he_schema :: "schemaInfo option"

datatype error =
    Error string
  | TypeError
  | HTTPError httpError
  | Thrown thrown

subsection \<open>Requests, results, statements\<close>

record request =
  rq_table :: "string option"
  rq_attributes :: obj
  rq_limit :: "int option"
  rq_next :: "int option"
  rq_order :: "(string \<times> string) list"
  rq_timestamp :: "int option"

text \<open>The request \<open>{}\<close>, and a request with only \<open>attributes\<close> set.\<close>

definition emptyRequest :: request where
  "emptyRequest = \<lparr>rq_table = None, rq_attributes = [], rq_limit = None, rq_next = None,
     rq_order = [], rq_timestamp = None\<rparr>"

record result =
  res_count :: nat
  res_items :: "obj list"
  res_next :: "int option"

text \<open>The literal \<open>{count: 0, items: []}\<close>.\<close>

definition emptyResult :: result where
  "emptyResult = \<lparr>res_count = 0, res_items = [], res_next = None\<rparr>"

record getQuery =
  gq_sql :: string
  gq_params :: "jsval list"

record statement =
  st_sql :: string
  st_params :: "jsval list option"

record putQuery =
  pq_data :: statement
  pq_static :: "statement option"

text \<open>What \<open>client.all\<close> resolves to: nothing, one row object, or an array of rows.\<close>

datatype allResult = Absent | SingleRow obj | Rows "obj list"

text \<open>The argument of \<open>createTable\<close>: the table name and the declared schema.\<close>

record 'd tableRequest =
  tr_table :: string
  tr_declaration :: 'd

datatype response = Status nat

record 'd schemaResponse =
  sr_status :: nat
  sr_tid :: jsval
  sr_schema :: 'd

subsection \<open>Collaborators\<close>

text \<open>
  Calls that leave \<open>db.js\<close>, in the order they are made. \<open>EvAll\<close> is \<open>client.all\<close>,
  \<open>EvRun\<close> is \<open>client.run\<close> with its batch, \<open>EvNewMigrator\<close> is the construction of a
  \<open>SchemaMigrator\<close>, \<open>EvMigrate\<close> its \<open>migrate()\<close>, \<open>EvLog\<close> is \<open>self.log\<close>.
\<close>

datatype 'd event =
    EvAll getQuery
  | EvRun "statement list"
  | EvNewMigrator "'d tableRequest" string schemaInfo schemaInfo
  | EvMigrate "'d tableRequest" string schemaInfo schemaInfo
  | EvLog string error

text \<open>
  The modules \<open>db.js\<close> requires (\<open>dbutils\<close>, \<open>clientWrapper\<close>, \<open>SchemaMigrator\<close>,
  \<open>cassandra-uuid\<close>) and the builtins it calls are parameters. \<open>'w\<close> is the state
  outside the \<open>DB\<close> object (the physical store, the clock, the identifier generator);
  \<open>'d\<close> is a schema description. A collaborator that can throw or reject returns a sum.
\<close>

record ('w, 'd) env =
  keyspaceName :: "string \<Rightarrow> string option \<Rightarrow> string"
  validateAndNormalizeSchema :: "'d tableRequest \<Rightarrow> error + 'd"
  makeSchemaInfo :: "'d \<Rightarrow> schemaInfo"
  infoSchemaInfo :: schemaInfo
  hasStaticTable :: "schemaInfo \<Rightarrow> bool"
  JSON_parse :: "jsval \<Rightarrow> error + 'd"
  JSON_stringify :: "'d \<Rightarrow> string"
  buildGetQuery :: "string \<Rightarrow> request \<Rightarrow> string \<Rightarrow> schemaInfo \<Rightarrow> bool option \<Rightarrow> getQuery"
  buildPutQuery :: "request \<Rightarrow> string \<Rightarrow> string \<Rightarrow> schemaInfo \<Rightarrow> putQuery"
  buildDeleteExpiredQuery :: "schemaInfo \<Rightarrow> string \<Rightarrow> statement"
  buildTableSql :: "schemaInfo \<Rightarrow> string \<Rightarrow> string \<Rightarrow> string"
  buildStaticsTableSql :: "schemaInfo \<Rightarrow> string \<Rightarrow> string"
  buildIndexViewSql :: "schemaInfo \<Rightarrow> string \<Rightarrow> string"
  client_all :: "'w \<Rightarrow> getQuery \<Rightarrow> (thrown + allResult) \<times> 'w"
  client_run :: "'w \<Rightarrow> statement list \<Rightarrow> (thrown + unit) \<times> 'w"
  SchemaMigrator_check :: "'d tableRequest \<Rightarrow> string \<Rightarrow> schemaInfo \<Rightarrow> schemaInfo \<Rightarrow> error option"
  SchemaMigrator_migrate ::
    "'d tableRequest \<Rightarrow> string \<Rightarrow> schemaInfo \<Rightarrow> schemaInfo \<Rightarrow> 'w \<Rightarrow> (error + unit) \<times> 'w"
  TimeUuid_now :: "'w \<Rightarrow> string \<times> 'w"
  TimeUuid_getDate :: "string \<Rightarrow> error + int"
  Date_getTime :: "'w \<Rightarrow> int \<times> 'w"
  error_toString :: "error \<Rightarrow> string"

text \<open>
  The \<open>DB\<close> object and what surrounds it: \<open>this.schemaCache\<close> (an entry can hold
  \<open>null\<close>, written by \<open>get\<close> and \<open>put\<close> when no schema is stored), the outside state,
  and the calls made so far.
\<close>

record ('w, 'd) db =
  schemaCache :: "string \<Rightarrow> schemaInfo option option"
  world :: 'w
  trace :: "'d event list"

text \<open>\<open>self.schemaCache[keyspace]\<close> as a truth value: a \<open>null\<close> entry is falsy.\<close>

definition cached :: "('w, 'd) db \<Rightarrow> string \<Rightarrow> schemaInfo option" where
  "cached s keyspace = (case schemaCache s keyspace of Some (Some si) \<Rightarrow> Some si | _ \<Rightarrow> None)"

section \<open>The read path\<close>

text \<open>
  One step of \<open>convertRow\<close>'s loop:
  \<open>schema.converters[schema.attributes[key]].read(row[key])\<close>. An attribute the schema
  does not know has type \<open>undefined\<close>, looked up as the property \<open>"undefined"\<close>; a
  missing converter makes \<open>.read\<close> a TypeError.
\<close>

definition convertValue :: "schemaInfo \<Rightarrow> string \<Rightarrow> jsval \<Rightarrow> error + jsval" where
  "convertValue schema key v =
     (case si_attributes schema of
        None \<Rightarrow> Inl TypeError
      | Some atts \<Rightarrow>
          (let ty = (case map_of atts key of None \<Rightarrow> ''undefined'' | Some t \<Rightarrow> t)
           in case si_converters schema ty of
                None \<Rightarrow> Inl TypeError
              | Some rd \<Rightarrow> (case rd v of Inl t \<Rightarrow> Inl (Thrown t) | Inr v' \<Rightarrow> Inr v')))"

fun convertEntries :: "schemaInfo \<Rightarrow> obj \<Rightarrow> error + obj" where
  "convertEntries schema [] = Inr []"
| "convertEntries schema ((k, v) # kvs) =
     (case convertValue schema k v of
        Inl e \<Rightarrow> Inl e
      | Inr v' \<Rightarrow> (case convertEntries schema kvs of
                     Inl e \<Rightarrow> Inl e
                   | Inr kvs' \<Rightarrow> Inr ((k, v') # kvs')))"

definition convertRow :: "schemaInfo \<Rightarrow> obj \<Rightarrow> error + obj" where
  "convertRow schema row = convertEntries schema (obj_delete row ''_exist_until'')"

text \<open>\<open>result.map(convertRow)\<close>: the first row that throws ends the map.\<close>

fun convertRows :: "schemaInfo \<Rightarrow> obj list \<Rightarrow> error + obj list" where
  "convertRows schema [] = Inr []"
| "convertRows schema (r # rs) =
     (case convertRow schema r of
        Inl e \<Rightarrow> Inl e
      | Inr r' \<Rightarrow> (case convertRows schema rs of
                     Inl e \<Rightarrow> Inl e
                   | Inr rs' \<Rightarrow> Inr (r' # rs')))"

text \<open>\<open>req.next || req.limit\<close> tests numbers for truth: absent and \<open>0\<close> are falsy.\<close>

definition num_truthy :: "int option \<Rightarrow> bool" where
  "num_truthy n = (case n of None \<Rightarrow> False | Some i \<Rightarrow> i \<noteq> 0)"

text \<open>\<open>req.next || 0\<close>.\<close>

definition next_or_0 :: "int option \<Rightarrow> int" where
  "next_or_0 n = (case n of None \<Rightarrow> 0 | Some i \<Rightarrow> if i \<noteq> 0 then i else 0)"

text \<open>The \<open>.then\<close> callback of \<open>_get\<close>, on what \<open>client.all\<close> resolved to.\<close>

definition get_then :: "schemaInfo \<Rightarrow> request \<Rightarrow> allResult \<Rightarrow> error + result" where
  "get_then schema req result =
     (case result of
        Absent \<Rightarrow> Inr emptyResult
      | SingleRow row \<Rightarrow>
          (case convertRow schema row of
             Inl e \<Rightarrow> Inl e
           | Inr row' \<Rightarrow>
               Inr \<lparr>res_count = length [row'], res_items = [row'],
                    res_next = (if num_truthy (rq_next req) \<or> num_truthy (rq_limit req)
                                then Some (next_or_0 (rq_next req) + int (length [row']))
                                else None)\<rparr>)
      | Rows rs \<Rightarrow>
          (case convertRows schema rs of
             Inl e \<Rightarrow> Inl e
           | Inr rows \<Rightarrow>
               Inr \<lparr>res_count = length rows, res_items = rows,
                    res_next = (if num_truthy (rq_next req) \<or> num_truthy (rq_limit req)
                                then Some (next_or_0 (rq_next req) + int (length rows))
                                else None)\<rparr>))"

text \<open>
  The test of the \<open>.catch\<close> callback:
  \<open>err instanceof Object && err.cause && err.cause.code === 'SQLITE_ERROR'\<close>.
  The errors \<open>db.js\<close> constructs itself are objects without a \<open>cause\<close>.
\<close>

fun isSqliteError :: "error \<Rightarrow> bool" where
  "isSqliteError (Thrown t) =
     (thrown_isObject t \<and>
      (case thrown_cause t of None \<Rightarrow> False | Some c \<Rightarrow> cause_code c = ''SQLITE_ERROR''))"
| "isSqliteError _ = False"

definition get_catch :: "error \<Rightarrow> error + result" where
  "get_catch err = (if isSqliteError err then Inr emptyResult else Inl err)"

text \<open>\<open>if (!table) { table = 'data'; }\<close>\<close>

definition tableOrData :: "string option \<Rightarrow> string" where
  "tableOrData table = (case table of None \<Rightarrow> ''data'' | Some t \<Rightarrow> if t = [] then ''data'' else t)"

text \<open>
  \<open>DB.prototype._get\<close> (an Isabelle name cannot start with an underscore: \<open>u_get\<close>).
  The promise chain runs in sequence; a rejection is \<open>Inl\<close>.
\<close>

definition u_get ::
  "('w, 'd) env \<Rightarrow> string \<Rightarrow> request \<Rightarrow> string option \<Rightarrow> schemaInfo option \<Rightarrow> bool option \<Rightarrow>
   ('w, 'd) db \<Rightarrow> (error + result) \<times> ('w, 'd) db" where
  "u_get E keyspace req table schema includePreparedForDelete s =
     (let table' = tableOrData table in
      case schema of
        None \<Rightarrow> (Inl (Error (''restbase-sqlite3: No schema for '' @ keyspace @ ''_'' @ table')), s)
      | Some sch \<Rightarrow>
          (let buildResult = buildGetQuery E keyspace req table' sch includePreparedForDelete;
               (r, w') = client_all E (world s) buildResult;
               s' = s\<lparr>world := w', trace := trace s @ [EvAll buildResult]\<rparr>
           in case (case r of Inl t \<Rightarrow> Inl (Thrown t) | Inr result \<Rightarrow> get_then sch req result) of
                Inl err \<Rightarrow> (get_catch err, s')
              | Inr res \<Rightarrow> (Inr res, s')))"

text \<open>\<open>DB.prototype.getTableSchema\<close>\<close>

definition getTableSchema ::
  "('w, 'd) env \<Rightarrow> string \<Rightarrow> string \<Rightarrow> ('w, 'd) db \<Rightarrow> (error + 'd schemaResponse) \<times> ('w, 'd) db" where
  "getTableSchema E domain table s =
     (let keyspace = keyspaceName E domain (Some table) in
      case u_get E keyspace emptyRequest (Some ''meta'') (Some (infoSchemaInfo E)) None s of
        (Inl e, s') \<Rightarrow> (Inl e, s')
      | (Inr res, s') \<Rightarrow>
          (case res_items res of
             item # _ \<Rightarrow>
               (case JSON_parse E (obj_get item ''value'') of
                  Inl e \<Rightarrow> (Inl e, s')
                | Inr d \<Rightarrow> (Inr \<lparr>sr_status = 200, sr_tid = obj_get item ''tid'', sr_schema = d\<rparr>, s'))
           | [] \<Rightarrow>
               (Inl (HTTPError \<lparr>he_status = 404, he_type = ''notfound'',
                       he_title = ''the requested table schema was not found'',
                       he_keyspace = None, he_schema = None\<rparr>), s')))"

text \<open>\<open>DB.prototype._getSchema\<close>; \<open>None\<close> is the \<open>null\<close> it returns.\<close>

definition u_getSchema ::
  "('w, 'd) env \<Rightarrow> string \<Rightarrow> ('w, 'd) db \<Rightarrow> (error + schemaInfo option) \<times> ('w, 'd) db" where
  "u_getSchema E keyspace s =
     (case u_get E keyspace emptyRequest (Some ''meta'') (Some (infoSchemaInfo E)) None s of
        (Inl e, s') \<Rightarrow> (Inl e, s')
      | (Inr res, s') \<Rightarrow>
          (case res_items res of
             item # _ \<Rightarrow>
               (case JSON_parse E (obj_get item ''value'') of
                  Inl e \<Rightarrow> (Inl e, s')
                | Inr schema \<Rightarrow> (Inr (Some (makeSchemaInfo E schema)), s'))
           | [] \<Rightarrow> (Inr None, s')))"

section \<open>The write path and revision retention\<close>

text \<open>
  The loop of \<open>_revisionPolicyUpdate\<close> over \<open>schema.iKeys\<close>:
  \<open>if (att !== schema.tid) dataQuery.attributes[att] = query.attributes[att]\<close>.
\<close>

fun itemKey :: "schemaInfo \<Rightarrow> obj \<Rightarrow> string list \<Rightarrow> obj \<Rightarrow> obj" where
  "itemKey schema atts [] acc = acc"
| "itemKey schema atts (att # rest) acc =
     itemKey schema atts rest
       (if att \<noteq> si_tid schema then obj_set acc att (obj_get atts att) else acc)"

text \<open>
  The update built for one excess revision: \<open>{table: query.table, attributes: item}\<close>
  with \<open>attributes._exist_until = expireTime\<close>.
\<close>

definition markQuery :: "request \<Rightarrow> int \<Rightarrow> obj \<Rightarrow> request" where
  "markQuery query expireTime item =
     emptyRequest\<lparr>rq_table := rq_table query,
                  rq_attributes := obj_set item ''_exist_until'' (JNum expireTime)\<rparr>"

text \<open>
  The \<open>dataQuery\<close> of \<open>_revisionPolicyUpdate\<close>: the table of the written request, the
  attributes collected by the loop, and \<open>order[schema.tid] = 'asc'\<close>.
\<close>

definition dataQuery :: "schemaInfo \<Rightarrow> request \<Rightarrow> request" where
  "dataQuery schema query =
     emptyRequest\<lparr>rq_table := rq_table query,
                  rq_attributes := itemKey schema (rq_attributes query) (si_iKeys schema) [],
                  rq_order := [(si_tid schema, ''asc'')]\<rparr>"

text \<open>
  The batch of \<open>_revisionPolicyUpdate\<close>: one update for each of
  \<open>result.items.slice(0, result.count - schema.revisionRetentionPolicy.count)\<close>, then
  \<open>queries.push(dbu.buildDeleteExpiredQuery(schema, keyspace))\<close>.
\<close>

definition expireQueries ::
  "('w, 'd) env \<Rightarrow> string \<Rightarrow> request \<Rightarrow> schemaInfo \<Rightarrow> int \<Rightarrow> result \<Rightarrow> statement list" where
  "expireQueries E keyspace query schema expireTime result =
     map (\<lambda>item. pq_data (buildPutQuery E (markQuery query expireTime item) keyspace ''data'' schema))
       (take (res_count result - rp_count (si_revisionRetentionPolicy schema)) (res_items result))
     @ [buildDeleteExpiredQuery E schema keyspace]"

text \<open>
  \<open>DB.prototype._revisionPolicyUpdate\<close>. \<open>new Date().getTime()\<close> is read first, then the
  revisions are read through \<open>_get\<close>, then the batch is run.
\<close>

definition u_revisionPolicyUpdate ::
  "('w, 'd) env \<Rightarrow> string \<Rightarrow> request \<Rightarrow> schemaInfo \<Rightarrow> ('w, 'd) db \<Rightarrow> (error + unit) \<times> ('w, 'd) db" where
  "u_revisionPolicyUpdate E keyspace query schema s =
     (if rp_type (si_revisionRetentionPolicy schema) = ''latest'' then
        (case Date_getTime E (world s) of
           (now, w1) \<Rightarrow>
             (case u_get E keyspace (dataQuery schema query) (Some ''data'') (Some schema) (Some False)
                     (s\<lparr>world := w1\<rparr>) of
                (Inl e, s') \<Rightarrow> (Inl e, s')
              | (Inr result, s') \<Rightarrow>
                  if res_count result > rp_count (si_revisionRetentionPolicy schema) then
                    (case client_run E (world s')
                            (expireQueries E keyspace query schema
                               (now + rp_grace_ttl (si_revisionRetentionPolicy schema) * 1000) result) of
                       (r, w') \<Rightarrow>
                         (case r of Inl t \<Rightarrow> Inl (Thrown t) | Inr u \<Rightarrow> Inr (),
                          s'\<lparr>world := w',
                             trace := trace s' @
                               [EvRun (expireQueries E keyspace query schema
                                  (now + rp_grace_ttl (si_revisionRetentionPolicy schema) * 1000)
                                  result)]\<rparr>))
                  else (Inr (), s')))
      else (Inr (), s))"

text \<open>
  The steps of \<open>DB.prototype._put\<close>, in order. First the schema: the built-in one for
  \<open>meta\<close>, the cached one for \<open>data\<close>, none for any other relation.
\<close>

definition putSchema :: "('w, 'd) env \<Rightarrow> ('w, 'd) db \<Rightarrow> string \<Rightarrow> string \<Rightarrow> schemaInfo option" where
  "putSchema E s keyspace table =
     (if table = ''meta'' then Some (infoSchemaInfo E)
      else if table = ''data'' then cached s keyspace
      else None)"

text \<open>
  \<open>if (!req.attributes[schema.tid]) req.attributes[schema.tid] = TimeUuid.now().toString()\<close>:
  the request is mutated, and the generator is advanced, only when the attribute is falsy.
\<close>

definition assignTid :: "('w, 'd) env \<Rightarrow> schemaInfo \<Rightarrow> request \<Rightarrow> 'w \<Rightarrow> request \<times> 'w" where
  "assignTid E schema req w =
     (if \<not> truthy (obj_get (rq_attributes req) (si_tid schema)) then
        (case TimeUuid_now E w of
           (u, w') \<Rightarrow> (req\<lparr>rq_attributes := obj_set (rq_attributes req) (si_tid schema) (JStr u)\<rparr>, w'))
      else (req, w))"

text \<open>
  \<open>TimeUuid.fromString(req.attributes[schema.tid].toString()).getDate()\<close>: the value
  that becomes \<open>req.timestamp\<close>, or what \<open>toString\<close> or \<open>fromString\<close> throws.
\<close>

definition tidDate :: "('w, 'd) env \<Rightarrow> schemaInfo \<Rightarrow> request \<Rightarrow> error + int" where
  "tidDate E schema req =
     (case js_toString (obj_get (rq_attributes req) (si_tid schema)) of
        None \<Rightarrow> Inl TypeError
      | Some str \<Rightarrow> TimeUuid_getDate E str)"

text \<open>The batch: \<open>[query.data]\<close>, and \<open>query.static\<close> when the compiler returned one.\<close>

definition putQueries ::
  "('w, 'd) env \<Rightarrow> request \<Rightarrow> string \<Rightarrow> string \<Rightarrow> schemaInfo \<Rightarrow> statement list" where
  "putQueries E req keyspace table schema =
     (let query = buildPutQuery E req keyspace table schema
      in pq_data query # (case pq_static query of None \<Rightarrow> [] | Some st \<Rightarrow> [st]))"

text \<open>
  Modelled from the spec: the contract of \<open>TimeUuid.now()\<close>, which belongs to the library
  \<open>cassandra-uuid\<close> and not to \<open>db.js\<close>: it returns "a fresh, globally unique, strictly
  time-ordered identifier". \<open>issued w\<close> stands for the identifiers given out before the
  state \<open>w\<close>: the one generated at \<open>w\<close> is not among them, it is among them afterwards, and
  it decodes to a time that is not before theirs.
\<close>

definition generatorContract :: "('w, 'd) env \<Rightarrow> ('w \<Rightarrow> string set) \<Rightarrow> bool" where
  "generatorContract E issued =
     (\<forall>w. fst (TimeUuid_now E w) \<notin> issued w
        \<and> issued (snd (TimeUuid_now E w)) = insert (fst (TimeUuid_now E w)) (issued w)
        \<and> (\<forall>v \<in> issued w. \<forall>a b.
              TimeUuid_getDate E v = Inr a \<longrightarrow>
              TimeUuid_getDate E (fst (TimeUuid_now E w)) = Inr b \<longrightarrow> a \<le> b))"

text \<open>
  \<open>DB.prototype._put\<close> up to and including \<open>self.client.run(queries)\<close>. The request
  object is mutated in place, so it is returned beside the outcome. On success the
  outcome is the schema the write was made under.
\<close>

definition put_write ::
  "('w, 'd) env \<Rightarrow> string \<Rightarrow> request \<Rightarrow> string option \<Rightarrow> ('w, 'd) db \<Rightarrow>
   (error + schemaInfo) \<times> request \<times> ('w, 'd) db" where
  "put_write E keyspace req table s =
     (case putSchema E s keyspace (tableOrData table) of
        None \<Rightarrow> (Inl (Error ''Table not found!''), req, s)
      | Some schema \<Rightarrow>
          (case assignTid E schema req (world s) of
             (req1, w1) \<Rightarrow>
               (case tidDate E schema req1 of
                  Inl e \<Rightarrow> (Inl e, req1, s\<lparr>world := w1\<rparr>)
                | Inr date \<Rightarrow>
                    (case client_run E w1
                            (putQueries E (req1\<lparr>rq_timestamp := Some date\<rparr>) keyspace
                               (tableOrData table) schema) of
                       (r, w2) \<Rightarrow>
                         (case r of Inl t \<Rightarrow> Inl (Thrown t) | Inr u \<Rightarrow> Inr schema,
                          req1\<lparr>rq_timestamp := Some date\<rparr>,
                          s\<lparr>world := w2,
                            trace := trace s @
                              [EvRun (putQueries E (req1\<lparr>rq_timestamp := Some date\<rparr>) keyspace
                                        (tableOrData table) schema)]\<rparr>)))))"

text \<open>
  \<open>DB.prototype._put\<close>: the write, then the two \<open>.then\<close> callbacks. The promise of
  \<open>_revisionPolicyUpdate\<close> is not returned from the first callback: whether it fulfils
  or rejects, \<open>_put\<close> resolves to \<open>{status: 201}\<close>.
\<close>

definition u_put ::
  "('w, 'd) env \<Rightarrow> string \<Rightarrow> request \<Rightarrow> string option \<Rightarrow> ('w, 'd) db \<Rightarrow>
   (error + response) \<times> request \<times> ('w, 'd) db" where
  "u_put E keyspace req table s =
     (case put_write E keyspace req table s of
        (Inl e, req', s') \<Rightarrow> (Inl e, req', s')
      | (Inr schema, req', s') \<Rightarrow>
          (Inr (Status 201), req',
           if tableOrData table = ''data''
           then snd (u_revisionPolicyUpdate E keyspace req' schema s')
           else s'))"

text \<open>\<open>DB.prototype.put\<close>\<close>

definition put ::
  "('w, 'd) env \<Rightarrow> string \<Rightarrow> request \<Rightarrow> ('w, 'd) db \<Rightarrow> (error + response) \<times> request \<times> ('w, 'd) db" where
  "put E domain req s =
     (let keyspace = keyspaceName E domain (rq_table req) in
      case cached s keyspace of
        None \<Rightarrow>
          (case u_getSchema E keyspace s of
             (Inl e, s') \<Rightarrow> (Inl e, req, s')
           | (Inr schema, s') \<Rightarrow>
               u_put E keyspace req None
                 (s'\<lparr>schemaCache := (schemaCache s')(keyspace := Some schema)\<rparr>))
      | Some sch \<Rightarrow> u_put E keyspace req None s)"

text \<open>\<open>DB.prototype.get\<close>\<close>

definition get ::
  "('w, 'd) env \<Rightarrow> string \<Rightarrow> request \<Rightarrow> ('w, 'd) db \<Rightarrow> (error + result) \<times> ('w, 'd) db" where
  "get E domain req s =
     (let keyspace = keyspaceName E domain (rq_table req) in
      case cached s keyspace of
        None \<Rightarrow>
          (case u_getSchema E keyspace s of
             (Inl e, s') \<Rightarrow> (Inl e, s')
           | (Inr schema, s') \<Rightarrow>
               u_get E keyspace req (Some ''data'') schema None
                 (s'\<lparr>schemaCache := (schemaCache s')(keyspace := Some schema)\<rparr>))
      | Some sch \<Rightarrow> u_get E keyspace req (Some ''data'') (Some sch) None s)"

section \<open>Table lifecycle\<close>

text \<open>A statement \<open>{sql: ...}\<close>, without parameters.\<close>

definition sqlOnly :: "string \<Rightarrow> statement" where
  "sqlOnly q = \<lparr>st_sql = q, st_params = None\<rparr>"

text \<open>\<open>DB.prototype._createTable\<close>\<close>

definition u_createTable ::
  "('w, 'd) env \<Rightarrow> string \<Rightarrow> schemaInfo \<Rightarrow> ('w, 'd) db \<Rightarrow> (error + unit) \<times> ('w, 'd) db" where
  "u_createTable E keyspace schema s =
     (case si_attributes schema of
        None \<Rightarrow> (Inl (Error (''No attribute definitions for table '' @ keyspace)), s)
      | Some atts \<Rightarrow>
          (let queries = [sqlOnly (buildTableSql E schema keyspace ''data''),
                          sqlOnly (buildTableSql E (infoSchemaInfo E) keyspace ''meta''),
                          sqlOnly (buildStaticsTableSql E schema keyspace),
                          sqlOnly (buildIndexViewSql E schema keyspace)];
               (r, w') = client_run E (world s) queries
           in (case r of Inl t \<Rightarrow> Inl (Thrown t) | Inr u \<Rightarrow> Inr (),
               s\<lparr>world := w', trace := trace s @ [EvRun queries]\<rparr>)))"

text \<open>The request \<open>createTable\<close> writes to \<open>meta\<close>.\<close>

definition schemaRow :: "('w, 'd) env \<Rightarrow> 'd \<Rightarrow> request" where
  "schemaRow E schema =
     emptyRequest\<lparr>rq_attributes := [(''key'', JStr ''schema''),
                                     (''value'', JStr (JSON_stringify E schema))]\<rparr>"

text \<open>The callback of \<open>createOperation.then\<close> in \<open>createTable\<close>.\<close>

definition createTable_then ::
  "('w, 'd) env \<Rightarrow> string \<Rightarrow> 'd \<Rightarrow> schemaInfo \<Rightarrow> ('w, 'd) db \<Rightarrow> (error + response) \<times> ('w, 'd) db" where
  "createTable_then E keyspace schema schemaInfo s =
     (case u_put E keyspace (schemaRow E schema) (Some ''meta'')
             (s\<lparr>schemaCache := (schemaCache s)(keyspace := Some (Some schemaInfo))\<rparr>) of
        (r, req', s') \<Rightarrow> (r, s'))"

text \<open>The 400 thrown when \<open>new SchemaMigrator(...)\<close> throws \<open>error\<close>.\<close>

definition badRequest :: "('w, 'd) env \<Rightarrow> error \<Rightarrow> string \<Rightarrow> schemaInfo \<Rightarrow> error" where
  "badRequest E err keyspace schemaInfo =
     HTTPError \<lparr>he_status = 400, he_type = ''bad_request'',
       he_title = ''The table already exists, and its schema cannot be upgraded to the requested schema (''
                  @ error_toString E err @ '').'',
       he_keyspace = Some keyspace, he_schema = Some schemaInfo\<rparr>"

text \<open>\<open>DB.prototype.createTable\<close>\<close>

definition createTable ::
  "('w, 'd) env \<Rightarrow> string \<Rightarrow> 'd tableRequest \<Rightarrow> ('w, 'd) db \<Rightarrow> (error + response) \<times> ('w, 'd) db" where
  "createTable E domain req s =
     (if tr_table req = [] then (Inl (Error ''Table name required.''), s)
      else
        (let keyspace = keyspaceName E domain (Some (tr_table req)) in
         case u_getSchema E keyspace s of
           (Inl e, s1) \<Rightarrow> (Inl e, s1)
         | (Inr currentSchema, s1) \<Rightarrow>
             (case validateAndNormalizeSchema E req of
                Inl e \<Rightarrow> (Inl e, s1)
              | Inr schema \<Rightarrow>
                  (let schemaInfo = makeSchemaInfo E schema in
                   case currentSchema of
                     Some cur \<Rightarrow>
                       (if si_hash cur \<noteq> si_hash schemaInfo then
                          (case SchemaMigrator_check E req keyspace cur schemaInfo of
                             Some err \<Rightarrow>
                               (Inl (badRequest E err keyspace schemaInfo),
                                s1\<lparr>trace := trace s1 @ [EvNewMigrator req keyspace cur schemaInfo]\<rparr>)
                           | None \<Rightarrow>
                               (case SchemaMigrator_migrate E req keyspace cur schemaInfo (world s1) of
                                  (Inl err, w') \<Rightarrow>
                                    (Inl err,
                                     s1\<lparr>world := w',
                                        trace := trace s1 @
                                          [EvNewMigrator req keyspace cur schemaInfo,
                                           EvMigrate req keyspace cur schemaInfo,
                                           EvLog ''error/cassandra/table_update'' err]\<rparr>)
                                | (Inr u, w') \<Rightarrow>
                                    createTable_then E keyspace schema schemaInfo
                                      (s1\<lparr>world := w',
                                          trace := trace s1 @
                                            [EvNewMigrator req keyspace cur schemaInfo,
                                             EvMigrate req keyspace cur schemaInfo]\<rparr>)))
                        else (Inr (Status 201), s1))
                   | None \<Rightarrow>
                       (case u_createTable E keyspace schemaInfo s1 of
                          (Inl e, s2) \<Rightarrow> (Inl e, s2)
                        | (Inr u, s2) \<Rightarrow> createTable_then E keyspace schema schemaInfo s2)))))"

text \<open>
  Modelled from the spec: \<open>dbu.staticTableExist\<close>, which is not in \<open>db.js\<close>. On a schema it
  says whether the schema has a \<open>static\<close> relation (the parameter \<open>hasStaticTable\<close>); on
  the \<open>null\<close> that \<open>_getSchema\<close> returns when nothing is stored, "the \<open>static\<close> drop is
  skipped since its existence is unknown".
\<close>

definition staticTableExist :: "('w, 'd) env \<Rightarrow> schemaInfo option \<Rightarrow> bool" where
  "staticTableExist E schema = (case schema of None \<Rightarrow> False | Some si \<Rightarrow> hasStaticTable E si)"

text \<open>The function \<open>deleteRequest\<close> inside \<open>dropTable\<close>.\<close>

definition deleteRequest ::
  "('w, 'd) env \<Rightarrow> string \<Rightarrow> schemaInfo option \<Rightarrow> ('w, 'd) db \<Rightarrow> (error + unit) \<times> ('w, 'd) db" where
  "deleteRequest E keyspace schema s =
     (let queries = [sqlOnly (''drop view '' @ keyspace @ ''_indexView''),
                     sqlOnly (''drop table '' @ keyspace @ ''_meta''),
                     sqlOnly (''drop table '' @ keyspace @ ''_data'')]
                    @ (if staticTableExist E schema
                       then [sqlOnly (''drop table '' @ keyspace @ ''_static'')] else []);
          (r, w') = client_run E (world s) queries
      in (case r of Inl t \<Rightarrow> Inl (Thrown t) | Inr u \<Rightarrow> Inr (),
          s\<lparr>world := w', trace := trace s @ [EvRun queries]\<rparr>))"

text \<open>\<open>DB.prototype.dropTable\<close>\<close>

definition dropTable ::
  "('w, 'd) env \<Rightarrow> string \<Rightarrow> string \<Rightarrow> ('w, 'd) db \<Rightarrow> (error + unit) \<times> ('w, 'd) db" where
  "dropTable E domain table s =
     (let keyspace = keyspaceName E domain (Some table) in
      case cached s keyspace of
        None \<Rightarrow>
          (case u_getSchema E keyspace s of
             (Inl e, s') \<Rightarrow> (Inl e, s')
           | (Inr schema, s') \<Rightarrow> deleteRequest E keyspace schema s')
      | Some schema \<Rightarrow>
          deleteRequest E keyspace (Some schema)
            (s\<lparr>schemaCache := (schemaCache s)(keyspace := None)\<rparr>))"

section \<open>A small execution engine, for concrete runs\<close>

text \<open>
  One keyspace, \<open>d_t\<close>. The store holds the rows of \<open>meta\<close> (newest first) and of \<open>data\<close>
  (oldest first) once the relations are created; before that every query fails the way
  the SQLite driver reports a missing relation. Identifiers come from a supply.
\<close>

record tworld =
  tw_created :: bool
  tw_meta :: "obj list"
  tw_data :: "obj list"
  tw_clock :: int
  tw_uuids :: "string list"

definition noSuchTable :: "string \<Rightarrow> thrown" where
  "noSuchTable relation =
     \<lparr>thrown_isObject = True,
      thrown_cause = Some \<lparr>cause_code = ''SQLITE_ERROR'',
                           cause_message = ''SQLITE_ERROR: no such table: '' @ relation\<rparr>\<rparr>"

definition syntaxError :: thrown where
  "syntaxError =
     \<lparr>thrown_isObject = True,
      thrown_cause = Some \<lparr>cause_code = ''SQLITE_ERROR'',
                           cause_message = ''SQLITE_ERROR: near FROM: syntax error''\<rparr>\<rparr>"

definition constraintError :: thrown where
  "constraintError =
     \<lparr>thrown_isObject = True,
      thrown_cause = Some \<lparr>cause_code = ''SQLITE_CONSTRAINT'',
                           cause_message = ''SQLITE_CONSTRAINT: UNIQUE constraint failed''\<rparr>\<rparr>"

text \<open>
  What the spec calls a failure "because the targeted physical relation does not exist",
  for the relation \<open>keyspace_table\<close>: the driver's message names the missing relation.
\<close>

definition relationMissing :: "string \<Rightarrow> string \<Rightarrow> thrown \<Rightarrow> bool" where
  "relationMissing keyspace table t =
     (case thrown_cause t of
        None \<Rightarrow> False
      | Some c \<Rightarrow> cause_message c = ''SQLITE_ERROR: no such table: '' @ keyspace @ ''_'' @ table)"

definition exampleConverters :: "string \<Rightarrow> (jsval \<Rightarrow> thrown + jsval) option" where
  "exampleConverters ty = Some Inr"

definition exampleSchema :: "string \<Rightarrow> schemaInfo" where
  "exampleSchema h =
     \<lparr>si_attributes = Some [(''key'', ''string''), (''tid'', ''timeuuid'')],
      si_converters = exampleConverters,
      si_iKeys = [''key'', ''tid''],
      si_tid = ''tid'',
      si_hash = h,
      si_revisionRetentionPolicy = \<lparr>rp_type = ''latest'', rp_count = 2, rp_grace_ttl = 10\<rparr>\<rparr>"

definition exampleInfoSchema :: schemaInfo where
  "exampleInfoSchema =
     \<lparr>si_attributes = Some [(''key'', ''string''), (''value'', ''json''), (''tid'', ''timeuuid'')],
      si_converters = exampleConverters,
      si_iKeys = [''key'', ''tid''],
      si_tid = ''tid'',
      si_hash = ''meta'',
      si_revisionRetentionPolicy = \<lparr>rp_type = ''all'', rp_count = 0, rp_grace_ttl = 0\<rparr>\<rparr>"

definition exampleRun :: "tworld \<Rightarrow> statement \<Rightarrow> tworld" where
  "exampleRun w st =
     (if take 6 (st_sql st) = ''create'' then w\<lparr>tw_created := True\<rparr>
      else if take 4 (st_sql st) = ''drop'' then w\<lparr>tw_created := False, tw_meta := [], tw_data := []\<rparr>
      else if st_sql st = ''insert d_t_meta'' then
        w\<lparr>tw_meta := zip [''key'', ''value'', ''tid''] (case st_params st of None \<Rightarrow> [] | Some ps \<Rightarrow> ps)
                        # tw_meta w\<rparr>
      else if st_sql st = ''insert d_t_data'' then
        w\<lparr>tw_data := tw_data w @
                        [zip [''key'', ''tid'', ''_exist_until'']
                           (case st_params st of None \<Rightarrow> [] | Some ps \<Rightarrow> ps)]\<rparr>
      else w)"

definition exampleEnv :: "(tworld, string) env" where
  "exampleEnv =
     \<lparr>keyspaceName = (\<lambda>domain table. domain @ ''_'' @ (case table of None \<Rightarrow> ''undefined'' | Some t \<Rightarrow> t)),
      validateAndNormalizeSchema = (\<lambda>req. Inr (tr_declaration req)),
      makeSchemaInfo = exampleSchema,
      infoSchemaInfo = exampleInfoSchema,
      hasStaticTable = (\<lambda>schema. False),
      JSON_parse = (\<lambda>v. case v of JStr str \<Rightarrow> Inr str | _ \<Rightarrow> Inl (Error ''SyntaxError'')),
      JSON_stringify = (\<lambda>d. d),
      buildGetQuery = (\<lambda>keyspace req table schema incl.
         \<lparr>gq_sql = ''select '' @ keyspace @ ''_'' @ table, gq_params = map snd (rq_attributes req)\<rparr>),
      buildPutQuery = (\<lambda>req keyspace table schema.
         \<lparr>pq_data = \<lparr>st_sql = ''insert '' @ keyspace @ ''_'' @ table,
                      st_params = Some (map snd (rq_attributes req))\<rparr>,
          pq_static = None\<rparr>),
      buildDeleteExpiredQuery = (\<lambda>schema keyspace. sqlOnly (''delete expired '' @ keyspace)),
      buildTableSql = (\<lambda>schema keyspace table. ''create table '' @ keyspace @ ''_'' @ table),
      buildStaticsTableSql = (\<lambda>schema keyspace. ''create table '' @ keyspace @ ''_static''),
      buildIndexViewSql = (\<lambda>schema keyspace. ''create view '' @ keyspace @ ''_indexView''),
      client_all = (\<lambda>w q.
         if \<not> tw_created w then (Inl (noSuchTable (drop 7 (gq_sql q))), w)
         else if gq_sql q = ''select d_t_meta'' then (Inr (Rows (tw_meta w)), w)
         else (Inr (Rows (tw_data w)), w)),
      client_run = (\<lambda>w stmts. (Inr (), foldl exampleRun w stmts)),
      SchemaMigrator_check = (\<lambda>req keyspace cur cand. None),
      SchemaMigrator_migrate = (\<lambda>req keyspace cur cand w. (Inr (), w)),
      TimeUuid_now = (\<lambda>w. case tw_uuids w of [] \<Rightarrow> (''t0'', w) | u # us \<Rightarrow> (u, w\<lparr>tw_uuids := us\<rparr>)),
      TimeUuid_getDate = (\<lambda>str. case map_of [(''t1'', 1000), (''t2'', 2000), (''t3'', 3000)] str of
                                   None \<Rightarrow> Inl (Error ''Invalid uuid'') | Some d \<Rightarrow> Inr d),
      Date_getTime = (\<lambda>w. (tw_clock w, w)),
      error_toString = (\<lambda>e. ''Error'')\<rparr>"

text \<open>An engine that resolves every query to nothing.\<close>

definition absentEnv :: "(tworld, string) env" where
  "absentEnv = exampleEnv\<lparr>client_all := (\<lambda>w q. (Inr Absent, w))\<rparr>"

text \<open>An engine that resolves every query to one row object.\<close>

definition singleRowEnv :: "(tworld, string) env" where
  "singleRowEnv =
     exampleEnv\<lparr>client_all := (\<lambda>w q.
        (Inr (SingleRow [(''key'', JStr ''a''), (''tid'', JStr ''t1''), (''_exist_until'', JNull)]), w))\<rparr>"

text \<open>An engine that rejects every query as malformed, and one that reports a conflict.\<close>

definition syntaxEnv :: "(tworld, string) env" where
  "syntaxEnv = exampleEnv\<lparr>client_all := (\<lambda>w q. (Inl syntaxError, w))\<rparr>"

definition constraintEnv :: "(tworld, string) env" where
  "constraintEnv = exampleEnv\<lparr>client_all := (\<lambda>w q. (Inl constraintError, w))\<rparr>"

text \<open>A migration engine that accepts the change and then fails to carry it out.\<close>

definition migrateFailsEnv :: "(tworld, string) env" where
  "migrateFailsEnv =
     exampleEnv\<lparr>SchemaMigrator_migrate := (\<lambda>req keyspace cur cand w. (Inl (Thrown constraintError), w))\<rparr>"

text \<open>A migration engine that refuses every change.\<close>

definition migratorRefusesEnv :: "(tworld, string) env" where
  "migratorRefusesEnv =
     exampleEnv\<lparr>SchemaMigrator_check := (\<lambda>req keyspace cur cand. Some (Error ''incompatible''))\<rparr>"

text \<open>A schema compiler for which every schema has a \<open>static\<close> relation.\<close>

definition staticEnv :: "(tworld, string) env" where
  "staticEnv = exampleEnv\<lparr>hasStaticTable := (\<lambda>schema. True)\<rparr>"

text \<open>
  A generator that counts: its \<open>n\<close>-th identifier is \<open>n\<close> times the letter \<open>u\<close> and decodes
  to the time \<open>n\<close>; the count is the length of the supply, which grows by one with every
  identifier. \<open>counterIssued\<close> are the identifiers it has given out.
\<close>

definition counterEnv :: "(tworld, string) env" where
  "counterEnv =
     exampleEnv\<lparr>TimeUuid_now := (\<lambda>w. (replicate (length (tw_uuids w)) CHR ''u'',
                                         w\<lparr>tw_uuids := ''u'' # tw_uuids w\<rparr>)),
                 TimeUuid_getDate := (\<lambda>str. Inr (int (length str)))\<rparr>"

definition counterIssued :: "tworld \<Rightarrow> string set" where
  "counterIssued w = (\<lambda>n. replicate n CHR ''u'') ` {..<length (tw_uuids w)}"

definition freshWorld :: tworld where
  "freshWorld = \<lparr>tw_created = False, tw_meta = [], tw_data = [], tw_clock = 5000,
                 tw_uuids = [''t1'', ''t2'', ''t3'']\<rparr>"

definition freshDb :: "(tworld, string) db" where
  "freshDb = \<lparr>schemaCache = (\<lambda>k. None), world = freshWorld, trace = []\<rparr>"

text \<open>The store after \<open>d_t\<close> was created with the schema \<open>v1\<close>, seen by a new process.\<close>

definition storedWorld :: tworld where
  "storedWorld = \<lparr>tw_created = True,
                  tw_meta = [[(''key'', JStr ''schema''), (''value'', JStr ''v1''), (''tid'', JStr ''t1'')]],
                  tw_data = [], tw_clock = 5000, tw_uuids = [''t2'', ''t3'']\<rparr>"

definition storedDb :: "(tworld, string) db" where
  "storedDb = \<lparr>schemaCache = (\<lambda>k. None), world = storedWorld, trace = []\<rparr>"

text \<open>
  The same store with two revisions of the item \<open>a\<close>, in a process whose cache holds the
  schema.
\<close>

definition revisionsWorld :: tworld where
  "revisionsWorld = storedWorld\<lparr>tw_data :=
     [[(''key'', JStr ''a''), (''tid'', JStr ''t1''), (''_exist_until'', JNull)],
      [(''key'', JStr ''a''), (''tid'', JStr ''t2''), (''_exist_until'', JNull)]],
     tw_uuids := [''t3'']\<rparr>"

definition revisionsDb :: "(tworld, string) db" where
  "revisionsDb = \<lparr>schemaCache = (\<lambda>k. if k = ''d_t'' then Some (Some (exampleSchema ''v1'')) else None),
                  world = revisionsWorld, trace = []\<rparr>"

section \<open>Basic facts\<close>

lemmas example_defs = exampleEnv_def exampleSchema_def exampleInfoSchema_def exampleRun_def
  freshDb_def freshWorld_def storedDb_def storedWorld_def noSuchTable_def exampleConverters_def
  absentEnv_def syntaxEnv_def constraintEnv_def singleRowEnv_def syntaxError_def
  constraintError_def migrateFailsEnv_def migratorRefusesEnv_def staticEnv_def revisionsWorld_def
  revisionsDb_def

lemmas write_defs = put_write_def u_put_def putSchema_def assignTid_def tidDate_def
  putQueries_def cached_def u_revisionPolicyUpdate_def expireQueries_def markQuery_def
  dataQuery_def

lemmas create_defs = createTable_def createTable_then_def u_createTable_def u_getSchema_def
  schemaRow_def sqlOnly_def badRequest_def

lemmas read_defs = u_get_def get_then_def get_catch_def tableOrData_def emptyResult_def
  emptyRequest_def convertRow_def convertValue_def obj_delete_def obj_get_def num_truthy_def
  next_or_0_def

lemma obj_get_obj_set_same: "obj_get (obj_set ob k v) k = v"
  by (induction ob) (auto simp: obj_get_def)


lemma u_get_schemaCache:
  "schemaCache (snd (u_get E keyspace req table schema incl s)) = schemaCache s"
  by (auto simp: u_get_def Let_def split: option.splits prod.splits sum.splits)

lemma u_get_trace:
  "trace (snd (u_get E keyspace req table (Some sch) incl s)) =
     trace s @ [EvAll (buildGetQuery E keyspace req (tableOrData table) sch incl)]"
  by (auto simp: u_get_def Let_def split: option.splits prod.splits sum.splits)

lemma u_getSchema_schemaCache:
  "schemaCache (snd (u_getSchema E keyspace s)) = schemaCache s"
proof -
  have "schemaCache (snd (u_get E keyspace emptyRequest (Some ''meta'') (Some (infoSchemaInfo E)) None s)) = schemaCache s"
    by (rule u_get_schemaCache)
  then show ?thesis
    by (auto simp: u_getSchema_def split: prod.splits sum.splits list.splits)
qed

lemma u_getSchema_no_items:
  assumes "u_get E keyspace emptyRequest (Some ''meta'') (Some (infoSchemaInfo E)) None s = (Inr res, s1)"
    and "res_items res = []"
  shows "u_getSchema E keyspace s = (Inr None, s1)"
  using assms by (simp add: u_getSchema_def)

lemma u_getSchema_trace:
  "trace (snd (u_getSchema E keyspace s)) =
     trace s @ [EvAll (buildGetQuery E keyspace emptyRequest ''meta'' (infoSchemaInfo E) None)]"
proof -
  have "trace (snd (u_get E keyspace emptyRequest (Some ''meta'') (Some (infoSchemaInfo E)) None s)) =
     trace s @ [EvAll (buildGetQuery E keyspace emptyRequest (tableOrData (Some ''meta'')) (infoSchemaInfo E) None)]"
    by (rule u_get_trace)
  then show ?thesis
    by (auto simp: u_getSchema_def tableOrData_def split: prod.splits sum.splits list.splits)
qed

lemma put_write_schemaCache:
  "schemaCache (snd (snd (put_write E keyspace req table s))) = schemaCache s"
  by (simp add: put_write_def split: option.split prod.split sum.split)

lemma u_revisionPolicyUpdate_schemaCache:
  "schemaCache (snd (u_revisionPolicyUpdate E keyspace query schema s)) = schemaCache s"
proof (cases "rp_type (si_revisionRetentionPolicy schema) = ''latest''")
  case False
  then show ?thesis by (simp add: u_revisionPolicyUpdate_def)
next
  case True
  obtain now w1 where n: "Date_getTime E (world s) = (now, w1)"
    by (cases "Date_getTime E (world s)")
  obtain r s' where g: "u_get E keyspace (dataQuery schema query) (Some ''data'') (Some schema) (Some False)
                   (s\<lparr>world := w1\<rparr>) = (r, s')"
    by (cases "u_get E keyspace (dataQuery schema query) (Some ''data'') (Some schema) (Some False)
                   (s\<lparr>world := w1\<rparr>)")
  have c: "schemaCache s' = schemaCache s"
    using u_get_schemaCache [of E keyspace "dataQuery schema query" "Some ''data''" "Some schema" "Some False" "s\<lparr>world := w1\<rparr>"] g
    by simp
  show ?thesis
    using True n g c
    by (cases r) (simp_all add: u_revisionPolicyUpdate_def split: prod.split)
qed

lemma u_put_schemaCache:
  "schemaCache (snd (snd (u_put E keyspace req table s))) = schemaCache s"
proof -
  obtain r req' s' where w: "put_write E keyspace req table s = (r, req', s')"
    by (cases "put_write E keyspace req table s")
  have c: "schemaCache s' = schemaCache s"
    using put_write_schemaCache [of E keyspace req table s] w by simp
  show ?thesis
    using w c by (cases r) (simp_all add: u_put_def u_revisionPolicyUpdate_schemaCache)
qed

lemma u_put_status:
  assumes "u_put E keyspace req table s = (Inr x, req', s')"
  shows "x = Status 201"
  using assms by (auto simp: u_put_def split: prod.splits sum.splits)

lemma createTable_then_status:
  assumes "createTable_then E keyspace schema schemaInfo s = (Inr x, s')"
  shows "x = Status 201"
  using assms by (auto simp: createTable_then_def split: prod.splits dest: u_put_status)

lemma createTable_status:
  assumes "createTable E domain req s = (Inr x, s')"
  shows "x = Status 201"
  using assms
  by (auto simp: createTable_def Let_def
      split: if_splits prod.splits sum.splits option.splits dest: createTable_then_status)

lemma put_steps_clock:
  "putSchema (E\<lparr>Date_getTime := clock\<rparr>) s keyspace t = putSchema E s keyspace t"
  "assignTid (E\<lparr>Date_getTime := clock\<rparr>) sch req w = assignTid E sch req w"
  "tidDate (E\<lparr>Date_getTime := clock\<rparr>) sch req = tidDate E sch req"
  "putQueries (E\<lparr>Date_getTime := clock\<rparr>) req keyspace t sch = putQueries E req keyspace t sch"
  by (simp_all add: putSchema_def assignTid_def tidDate_def putQueries_def split: option.split)

lemma put_write_clock:
  "put_write (E\<lparr>Date_getTime := clock\<rparr>) keyspace req table s = put_write E keyspace req table s"
  unfolding put_write_def put_steps_clock
  by (simp split: option.split prod.split sum.split)

lemma u_put_request:
  "fst (snd (u_put E keyspace req table s)) = fst (snd (put_write E keyspace req table s))"
  by (cases "put_write E keyspace req table s" rule: prod_cases3)
     (auto simp: u_put_def split: sum.splits)

lemma assignTid_request:
  "fst (assignTid E sch req w) =
     (if truthy (obj_get (rq_attributes req) (si_tid sch)) then req
      else req\<lparr>rq_attributes := obj_set (rq_attributes req) (si_tid sch) (JStr (fst (TimeUuid_now E w)))\<rparr>)"
  by (simp add: assignTid_def split: prod.split)

lemma put_write_request:
  assumes schema: "putSchema E s keyspace (tableOrData table) = Some sch"
    and tid: "tidUsed = (if truthy (obj_get (rq_attributes req) (si_tid sch))
                         then obj_get (rq_attributes req) (si_tid sch)
                         else JStr (fst (TimeUuid_now E (world s))))"
    and str: "js_toString tidUsed = Some str"
    and date: "TimeUuid_getDate E str = Inr date"
  shows "fst (snd (put_write E keyspace req table s)) =
           req\<lparr>rq_attributes :=
                  (if truthy (obj_get (rq_attributes req) (si_tid sch)) then rq_attributes req
                   else obj_set (rq_attributes req) (si_tid sch) (JStr (fst (TimeUuid_now E (world s))))),
               rq_timestamp := Some date\<rparr>"
    and "trace (snd (snd (put_write E keyspace req table s))) =
           trace s @ [EvRun (putQueries E (fst (snd (put_write E keyspace req table s))) keyspace
                               (tableOrData table) sch)]"
proof -
  obtain req1 w1 where a: "assignTid E sch req (world s) = (req1, w1)"
    by (cases "assignTid E sch req (world s)")
  have r1: "req1 = (if truthy (obj_get (rq_attributes req) (si_tid sch)) then req
      else req\<lparr>rq_attributes := obj_set (rq_attributes req) (si_tid sch) (JStr (fst (TimeUuid_now E (world s))))\<rparr>)"
    using assignTid_request [of E sch req "world s"] a by simp
  have t: "obj_get (rq_attributes req1) (si_tid sch) = tidUsed"
    using r1 tid by (simp add: obj_get_obj_set_same)
  have d: "tidDate E sch req1 = Inr date"
    using t str date by (simp add: tidDate_def)
  obtain r w2 where c: "client_run E w1 (putQueries E (req1\<lparr>rq_timestamp := Some date\<rparr>) keyspace
                               (tableOrData table) sch) = (r, w2)"
    by (cases "client_run E w1 (putQueries E (req1\<lparr>rq_timestamp := Some date\<rparr>) keyspace
                               (tableOrData table) sch)")
  have e: "put_write E keyspace req table s =
             (case r of Inl t \<Rightarrow> Inl (Thrown t) | Inr u \<Rightarrow> Inr sch,
              req1\<lparr>rq_timestamp := Some date\<rparr>,
              s\<lparr>world := w2,
                trace := trace s @ [EvRun (putQueries E (req1\<lparr>rq_timestamp := Some date\<rparr>) keyspace
                                             (tableOrData table) sch)]\<rparr>)"
    using schema a d c by (simp add: put_write_def)
  show "fst (snd (put_write E keyspace req table s)) =
           req\<lparr>rq_attributes :=
                  (if truthy (obj_get (rq_attributes req) (si_tid sch)) then rq_attributes req
                   else obj_set (rq_attributes req) (si_tid sch) (JStr (fst (TimeUuid_now E (world s))))),
               rq_timestamp := Some date\<rparr>"
    using e r1 by simp
  show "trace (snd (snd (put_write E keyspace req table s))) =
           trace s @ [EvRun (putQueries E (fst (snd (put_write E keyspace req table s))) keyspace
                               (tableOrData table) sch)]"
    using e by simp
qed

lemma u_revisionPolicyUpdate_trace_extends:
  "\<exists>rest. trace (snd (u_revisionPolicyUpdate E keyspace query schema s)) = trace s @ rest"
proof (cases "rp_type (si_revisionRetentionPolicy schema) = ''latest''")
  case False
  then show ?thesis by (simp add: u_revisionPolicyUpdate_def)
next
  case True
  obtain now w1 where n: "Date_getTime E (world s) = (now, w1)"
    by (cases "Date_getTime E (world s)")
  obtain r s' where g: "u_get E keyspace (dataQuery schema query) (Some ''data'') (Some schema) (Some False)
                   (s\<lparr>world := w1\<rparr>) = (r, s')"
    by (cases "u_get E keyspace (dataQuery schema query) (Some ''data'') (Some schema) (Some False)
                   (s\<lparr>world := w1\<rparr>)")
  have t: "trace s' = trace s @ [EvAll (buildGetQuery E keyspace (dataQuery schema query) (tableOrData (Some ''data'')) schema (Some False))]"
    using u_get_trace [of E keyspace "dataQuery schema query" "Some ''data''" schema "Some False" "s\<lparr>world := w1\<rparr>"] g
    by simp
  show ?thesis
    using True n g t
    by (cases r) (simp_all add: u_revisionPolicyUpdate_def split: prod.split)
qed






text \<open>\<open>put\<close> hands the caller's request to \<open>_put\<close> as it is, on a hit and on a miss.\<close>

lemma put_cache_hit:
  assumes "cached s (keyspaceName E domain (rq_table req)) = Some sch"
  shows "put E domain req s = u_put E (keyspaceName E domain (rq_table req)) req None s"
  using assms by (simp add: put_def Let_def)

lemma put_cache_miss:
  assumes "cached s (keyspaceName E domain (rq_table req)) = None"
    and "u_getSchema E (keyspaceName E domain (rq_table req)) s = (Inr schema, s')"
  shows "put E domain req s =
           u_put E (keyspaceName E domain (rq_table req)) req None
             (s'\<lparr>schemaCache := (schemaCache s')(keyspaceName E domain (rq_table req) := Some schema)\<rparr>)"
  using assms by (simp add: put_def Let_def)

lemma counter_contract: "generatorContract counterEnv counterIssued"
  by (auto simp: generatorContract_def counterEnv_def exampleEnv_def counterIssued_def lessThan_Suc
      dest: arg_cong [where f = length])


lemma put_write_exact:
  assumes schema: "putSchema E s keyspace (tableOrData table) = Some sch"
    and tid: "tidUsed = (if truthy (obj_get (rq_attributes req) (si_tid sch))
                         then obj_get (rq_attributes req) (si_tid sch)
                         else JStr (fst (TimeUuid_now E (world s))))"
    and str: "js_toString tidUsed = Some str"
    and date: "TimeUuid_getDate E str = Inr date"
    and w1: "w1 = (if truthy (obj_get (rq_attributes req) (si_tid sch)) then world s
                   else snd (TimeUuid_now E (world s)))"
    and stored: "stored = req\<lparr>rq_attributes :=
                  (if truthy (obj_get (rq_attributes req) (si_tid sch)) then rq_attributes req
                   else obj_set (rq_attributes req) (si_tid sch) (JStr (fst (TimeUuid_now E (world s))))),
               rq_timestamp := Some date\<rparr>"
    and batch: "batch = pq_data (buildPutQuery E stored keyspace (tableOrData table) sch) #
                        (case pq_static (buildPutQuery E stored keyspace (tableOrData table) sch) of
                           None \<Rightarrow> [] | Some st \<Rightarrow> [st])"
  shows "put_write E keyspace req table s =
           (case fst (client_run E w1 batch) of Inl t \<Rightarrow> Inl (Thrown t) | Inr u \<Rightarrow> Inr sch,
            stored,
            s\<lparr>world := snd (client_run E w1 batch), trace := trace s @ [EvRun batch]\<rparr>)"
proof -
  let ?req1 = "if truthy (obj_get (rq_attributes req) (si_tid sch)) then req
      else req\<lparr>rq_attributes := obj_set (rq_attributes req) (si_tid sch) (JStr (fst (TimeUuid_now E (world s))))\<rparr>"
  have a: "assignTid E sch req (world s) = (?req1, w1)"
    using w1 by (simp add: assignTid_def split: prod.split)
  have t: "obj_get (rq_attributes ?req1) (si_tid sch) = tidUsed"
    using tid by (simp add: obj_get_obj_set_same)
  have d: "tidDate E sch ?req1 = Inr date"
    using t str date by (simp add: tidDate_def)
  have st: "?req1\<lparr>rq_timestamp := Some date\<rparr> = stored"
    using stored by simp
  have q: "putQueries E stored keyspace (tableOrData table) sch = batch"
    using batch by (simp add: putQueries_def Let_def)
  obtain r w2 where c: "client_run E w1 batch = (r, w2)"
    by (cases "client_run E w1 batch")
  have "put_write E keyspace req table s =
          (case r of Inl t \<Rightarrow> Inl (Thrown t) | Inr u \<Rightarrow> Inr sch, stored,
           s\<lparr>world := w2, trace := trace s @ [EvRun batch]\<rparr>)"
    unfolding put_write_def schema option.case a prod.case d sum.case st q c ..
  then show ?thesis using c by simp
qed

lemma put_write_undecoded:
  assumes schema: "putSchema E s keyspace (tableOrData table) = Some sch"
    and a: "assignTid E sch req (world s) = (req1, w1)"
    and d: "tidDate E sch req1 = Inl e"
  shows "put_write E keyspace req table s = (Inl e, req1, s\<lparr>world := w1\<rparr>)"
  unfolding put_write_def schema option.case a prod.case d sum.case ..

lemma meta_put_exact:
  assumes given: "given = obj_get (rq_attributes req) (si_tid (infoSchemaInfo E))"
    and row: "row = req\<lparr>rq_attributes :=
                 (if truthy given then rq_attributes req
                  else obj_set (rq_attributes req) (si_tid (infoSchemaInfo E))
                         (JStr (fst (TimeUuid_now E (world s)))))\<rparr>"
    and w1: "w1 = (if truthy given then world s else snd (TimeUuid_now E (world s)))"
    and decoded: "decoded = (case js_toString (if truthy given then given
                                                else JStr (fst (TimeUuid_now E (world s)))) of
                               None \<Rightarrow> Inl TypeError
                             | Some str \<Rightarrow> TimeUuid_getDate E str)"
    and batch: "batch = (\<lambda>date.
                  pq_data (buildPutQuery E (row\<lparr>rq_timestamp := Some date\<rparr>) keyspace ''meta'' (infoSchemaInfo E)) #
                  (case pq_static (buildPutQuery E (row\<lparr>rq_timestamp := Some date\<rparr>) keyspace ''meta''
                                     (infoSchemaInfo E)) of
                     None \<Rightarrow> [] | Some st \<Rightarrow> [st]))"
  shows "(case u_put E keyspace req (Some ''meta'') s of (r, req', s') \<Rightarrow> (r, s')) =
           (case decoded of
              Inl e \<Rightarrow> (Inl e, s\<lparr>world := w1\<rparr>)
            | Inr date \<Rightarrow>
                (case fst (client_run E w1 (batch date)) of
                   Inl t \<Rightarrow> Inl (Thrown t) | Inr u \<Rightarrow> Inr (Status 201),
                 s\<lparr>world := snd (client_run E w1 (batch date)),
                   trace := trace s @ [EvRun (batch date)]\<rparr>))"
proof -
  let ?info = "infoSchemaInfo E"
  have tm: "tableOrData (Some ''meta'') = ''meta''"
    by (simp add: tableOrData_def)
  have schema: "putSchema E s keyspace (tableOrData (Some ''meta'')) = Some ?info"
    by (simp add: putSchema_def tm)
  have a: "assignTid E ?info req (world s) = (row, w1)"
    using given row w1 by (simp add: assignTid_def split: prod.split)
  have used: "obj_get (rq_attributes row) (si_tid ?info) =
                (if truthy given then given else JStr (fst (TimeUuid_now E (world s))))"
    using given row by (simp add: obj_get_obj_set_same)
  have td: "tidDate E ?info row = decoded"
    using used decoded by (simp add: tidDate_def)
  show ?thesis
  proof (cases decoded)
    case (Inl e)
    have "put_write E keyspace req (Some ''meta'') s = (Inl e, row, s\<lparr>world := w1\<rparr>)"
      using schema a td Inl by (simp add: put_write_undecoded)
    then show ?thesis
      using Inl by (simp add: u_put_def)
  next
    case (Inr date)
    obtain str where str: "js_toString (if truthy given then given
                                                else JStr (fst (TimeUuid_now E (world s)))) = Some str"
      and dt: "TimeUuid_getDate E str = Inr date"
      using decoded Inr by (auto split: option.splits)
    have tid: "(if truthy given then given else JStr (fst (TimeUuid_now E (world s)))) =
               (if truthy (obj_get (rq_attributes req) (si_tid ?info))
                then obj_get (rq_attributes req) (si_tid ?info)
                else JStr (fst (TimeUuid_now E (world s))))"
      using given by simp
    have w1': "w1 = (if truthy (obj_get (rq_attributes req) (si_tid ?info)) then world s
                   else snd (TimeUuid_now E (world s)))"
      using w1 given by simp
    have st: "row\<lparr>rq_timestamp := Some date\<rparr> = req\<lparr>rq_attributes :=
                  (if truthy (obj_get (rq_attributes req) (si_tid ?info)) then rq_attributes req
                   else obj_set (rq_attributes req) (si_tid ?info) (JStr (fst (TimeUuid_now E (world s))))),
               rq_timestamp := Some date\<rparr>"
      using row given by simp
    have b: "batch date = pq_data (buildPutQuery E (row\<lparr>rq_timestamp := Some date\<rparr>) keyspace
                                     (tableOrData (Some ''meta'')) ?info) #
                        (case pq_static (buildPutQuery E (row\<lparr>rq_timestamp := Some date\<rparr>) keyspace
                                           (tableOrData (Some ''meta'')) ?info) of
                           None \<Rightarrow> [] | Some st \<Rightarrow> [st])"
      using batch by (simp add: tm)
    have pw: "put_write E keyspace req (Some ''meta'') s =
           (case fst (client_run E w1 (batch date)) of Inl t \<Rightarrow> Inl (Thrown t) | Inr u \<Rightarrow> Inr ?info,
            row\<lparr>rq_timestamp := Some date\<rparr>,
            s\<lparr>world := snd (client_run E w1 (batch date)), trace := trace s @ [EvRun (batch date)]\<rparr>)"
      using put_write_exact [OF schema tid [symmetric, THEN sym] _ dt w1' st b] str tid
      by simp
    show ?thesis
      using pw Inr
      by (cases "fst (client_run E w1 (batch date))") (simp_all add: u_put_def tm)
  qed
qed

section \<open>The read path: count, pagination, absorbed failures\<close>

text \<open>
  C10. Every read that resolves returns a result whose \<open>count\<close> is the length of its
  \<open>items\<close>: whether the engine resolved to nothing, to one row object or to an array of
  rows, and when a failure was absorbed into the empty result.
\<close>

theorem u_get_count_items:
  assumes "u_get E keyspace req table schema incl s = (Inr res, s')"
  shows "res_count res = length (res_items res)"
proof (cases schema)
  case None
  with assms show ?thesis by (simp add: u_get_def)
next
  case (Some sch)
  obtain out w' where out: "client_all E (world s) (buildGetQuery E keyspace req (tableOrData table) sch incl) = (out, w')"
    by (cases "client_all E (world s) (buildGetQuery E keyspace req (tableOrData table) sch incl)")
  show ?thesis
  proof (cases out)
    case (Inl t)
    with assms Some out show ?thesis
      by (auto simp: u_get_def get_catch_def emptyResult_def split: if_splits)
  next
    case (Inr result)
    with assms Some out show ?thesis
      by (cases result)
         (auto simp: u_get_def get_then_def get_catch_def emptyResult_def
               split: sum.splits if_splits)
  qed
qed

text \<open>
  The four cases at concrete inputs: an array of one row, no result, one row object, and
  a read of a relation that does not exist.
\<close>

theorem u_get_count_items_witness:
  "u_get exampleEnv ''d_t'' emptyRequest (Some ''meta'') (Some exampleInfoSchema) None storedDb
     = (Inr \<lparr>res_count = 1,
              res_items = [[(''key'', JStr ''schema''), (''value'', JStr ''v1''), (''tid'', JStr ''t1'')]],
              res_next = None\<rparr>,
        storedDb\<lparr>trace := [EvAll \<lparr>gq_sql = ''select d_t_meta'', gq_params = []\<rparr>]\<rparr>)
   \<and> res_count \<lparr>res_count = 1,
              res_items = [[(''key'', JStr ''schema''), (''value'', JStr ''v1''), (''tid'', JStr ''t1'')]],
              res_next = None\<rparr> = 1
   \<and> fst (u_get absentEnv ''d_t'' emptyRequest (Some ''data'') (Some (exampleSchema ''v1'')) None storedDb)
     = Inr \<lparr>res_count = 0, res_items = [], res_next = None\<rparr>
   \<and> fst (u_get singleRowEnv ''d_t'' emptyRequest (Some ''data'') (Some (exampleSchema ''v1'')) None storedDb)
     = Inr \<lparr>res_count = 1, res_items = [[(''key'', JStr ''a''), (''tid'', JStr ''t1'')]], res_next = None\<rparr>
   \<and> fst (u_get exampleEnv ''d_t'' emptyRequest (Some ''data'') (Some (exampleSchema ''v1'')) None freshDb)
     = Inr \<lparr>res_count = 0, res_items = [], res_next = None\<rparr>"
proof -
  let ?row = "[(''key'', JStr ''schema''), (''value'', JStr ''v1''), (''tid'', JStr ''t1'')]"
  have h: "u_get exampleEnv ''d_t'' emptyRequest (Some ''meta'') (Some exampleInfoSchema) None storedDb
      = (Inr \<lparr>res_count = 1, res_items = [?row], res_next = None\<rparr>,
         storedDb\<lparr>trace := [EvAll \<lparr>gq_sql = ''select d_t_meta'', gq_params = []\<rparr>]\<rparr>)"
    by (simp add: read_defs example_defs)
  have a: "fst (u_get absentEnv ''d_t'' emptyRequest (Some ''data'') (Some (exampleSchema ''v1'')) None storedDb)
      = Inr \<lparr>res_count = 0, res_items = [], res_next = None\<rparr>"
    by (simp add: read_defs example_defs)
  have b: "fst (u_get singleRowEnv ''d_t'' emptyRequest (Some ''data'') (Some (exampleSchema ''v1'')) None storedDb)
      = Inr \<lparr>res_count = 1, res_items = [[(''key'', JStr ''a''), (''tid'', JStr ''t1'')]], res_next = None\<rparr>"
    by (simp add: read_defs example_defs)
  have c: "fst (u_get exampleEnv ''d_t'' emptyRequest (Some ''data'') (Some (exampleSchema ''v1'')) None freshDb)
      = Inr \<lparr>res_count = 0, res_items = [], res_next = None\<rparr>"
    by (simp add: read_defs example_defs)
  from u_get_count_items [OF h] h a b c show ?thesis by simp
qed

text \<open>
  C5, as stated, fails: a request that specifies \<open>limit: 10\<close>, on an engine that resolves
  the query to nothing, gets the literal \<open>{count: 0, items: []}\<close>, without \<open>next\<close>.
\<close>

theorem get_next_counterexample:
  "rq_limit (emptyRequest\<lparr>rq_limit := Some 10\<rparr>) = Some 10
   \<and> fst (client_all absentEnv (world storedDb)
           (buildGetQuery absentEnv ''d_t'' (emptyRequest\<lparr>rq_limit := Some 10\<rparr>) ''data''
              (exampleSchema ''v1'') None)) = Inr Absent
   \<and> fst (u_get absentEnv ''d_t'' (emptyRequest\<lparr>rq_limit := Some 10\<rparr>) (Some ''data'')
           (Some (exampleSchema ''v1'')) None storedDb)
     = Inr \<lparr>res_count = 0, res_items = [], res_next = None\<rparr>"
  by (simp add: read_defs example_defs)

text \<open>
  C5, amended. A read that resolves carries \<open>next\<close> exactly when the engine resolved to a row
  or an array of rows, their conversion went through, and \<open>req.next || req.limit\<close> is truthy
  (one of them is present and not \<open>0\<close>); its value is then \<open>request.next\<close> (or \<open>0\<close> when
  absent) plus the number of rows returned. When the engine resolves to nothing, or a
  failure is absorbed, the result is the empty one and carries no \<open>next\<close>.
\<close>

theorem get_next_accumulator:
  assumes run: "u_get E keyspace req table (Some sch) incl s = (Inr res, s')"
    and engine: "fst (client_all E (world s) (buildGetQuery E keyspace req (tableOrData table) sch incl)) = out"
  shows "case out of
           Inl t \<Rightarrow> res_items res = [] \<and> res_next res = None
         | Inr Absent \<Rightarrow> res_items res = [] \<and> res_next res = None
         | Inr (SingleRow row) \<Rightarrow>
             (case convertRow sch row of
                Inl e \<Rightarrow> res_items res = [] \<and> res_next res = None
              | Inr row' \<Rightarrow>
                  res_items res = [row'] \<and>
                  res_next res =
                    (if num_truthy (rq_next req) \<or> num_truthy (rq_limit req)
                     then Some ((case rq_next req of None \<Rightarrow> 0 | Some n \<Rightarrow> n) + 1)
                     else None))
         | Inr (Rows rs) \<Rightarrow>
             (case convertRows sch rs of
                Inl e \<Rightarrow> res_items res = [] \<and> res_next res = None
              | Inr rows \<Rightarrow>
                  res_items res = rows \<and>
                  res_next res =
                    (if num_truthy (rq_next req) \<or> num_truthy (rq_limit req)
                     then Some ((case rq_next req of None \<Rightarrow> 0 | Some n \<Rightarrow> n) + int (length rows))
                     else None))"
proof -
  obtain w' where out: "client_all E (world s) (buildGetQuery E keyspace req (tableOrData table) sch incl) = (out, w')"
    using engine by (cases "client_all E (world s) (buildGetQuery E keyspace req (tableOrData table) sch incl)") auto
  have n0: "next_or_0 (rq_next req) = (case rq_next req of None \<Rightarrow> 0 | Some n \<Rightarrow> n)"
    by (simp add: next_or_0_def split: option.splits)
  show ?thesis
  proof (cases out)
    case (Inl t)
    with run out show ?thesis
      by (auto simp: u_get_def get_catch_def emptyResult_def split: if_splits)
  next
    case (Inr result)
    show ?thesis
    proof (cases result)
      case Absent
      with run out Inr show ?thesis
        by (auto simp: u_get_def get_then_def emptyResult_def)
    next
      case (SingleRow row)
      with run out Inr n0 show ?thesis
        by (auto simp: u_get_def get_then_def get_catch_def emptyResult_def
              split: sum.splits if_splits)
    next
      case (Rows rs)
      with run out Inr n0 show ?thesis
        by (auto simp: u_get_def get_then_def get_catch_def emptyResult_def
              split: sum.splits if_splits)
    qed
  qed
qed

theorem get_next_accumulator_witness:
  "u_get exampleEnv ''d_t'' (emptyRequest\<lparr>rq_next := Some 2, rq_limit := Some 2\<rparr>) (Some ''data'')
      (Some (exampleSchema ''v1'')) None revisionsDb
     = (Inr \<lparr>res_count = 2,
              res_items = [[(''key'', JStr ''a''), (''tid'', JStr ''t1'')],
                           [(''key'', JStr ''a''), (''tid'', JStr ''t2'')]],
              res_next = Some 4\<rparr>,
        revisionsDb\<lparr>trace := [EvAll \<lparr>gq_sql = ''select d_t_data'', gq_params = []\<rparr>]\<rparr>)
   \<and> res_next \<lparr>res_count = 2,
              res_items = [[(''key'', JStr ''a''), (''tid'', JStr ''t1'')],
                           [(''key'', JStr ''a''), (''tid'', JStr ''t2'')]],
              res_next = Some 4\<rparr> = Some (2 + 2)"
proof -
  let ?req = "emptyRequest\<lparr>rq_next := Some 2, rq_limit := Some 2\<rparr>"
  have h: "u_get exampleEnv ''d_t'' ?req (Some ''data'') (Some (exampleSchema ''v1'')) None revisionsDb
     = (Inr \<lparr>res_count = 2,
              res_items = [[(''key'', JStr ''a''), (''tid'', JStr ''t1'')],
                           [(''key'', JStr ''a''), (''tid'', JStr ''t2'')]],
              res_next = Some 4\<rparr>,
        revisionsDb\<lparr>trace := [EvAll \<lparr>gq_sql = ''select d_t_data'', gq_params = []\<rparr>]\<rparr>)"
    by (simp add: read_defs example_defs)
  have e: "fst (client_all exampleEnv (world revisionsDb)
             (buildGetQuery exampleEnv ''d_t'' ?req (tableOrData (Some ''data'')) (exampleSchema ''v1'') None))
           = Inr (Rows (tw_data revisionsWorld))"
    by (simp add: example_defs tableOrData_def)
  from get_next_accumulator [OF h e] h show ?thesis
    by simp
qed

text \<open>
  C6, as stated, fails: a query the engine rejects as malformed is reported with the same
  code as a missing relation, and the read returns the empty result although the relation
  exists.
\<close>

theorem get_absorbs_counterexample:
  "fst (client_all syntaxEnv (world storedDb)
          (buildGetQuery syntaxEnv ''d_t'' emptyRequest ''data'' (exampleSchema ''v1'') None))
     = Inl syntaxError
   \<and> \<not> relationMissing ''d_t'' ''data'' syntaxError
   \<and> fst (u_get syntaxEnv ''d_t'' emptyRequest (Some ''data'') (Some (exampleSchema ''v1'')) None storedDb)
     = Inr \<lparr>res_count = 0, res_items = [], res_next = None\<rparr>"
  by (simp add: read_defs example_defs relationMissing_def)

text \<open>
  C6, amended. When the engine rejects the query with \<open>t\<close>, the read returns
  \<open>{count: 0, items: []}\<close> if and only if \<open>t\<close> is an object whose \<open>cause\<close> has the code
  \<open>SQLITE_ERROR\<close> (the engine's generic SQL error, of which a missing relation is one
  case); every other failure propagates unchanged.
\<close>

theorem get_absorbs_sqlite_error:
  assumes "fst (client_all E (world s) (buildGetQuery E keyspace req (tableOrData table) sch incl)) = Inl t"
  shows "fst (u_get E keyspace req table (Some sch) incl s) =
           (if thrown_isObject t \<and>
               (case thrown_cause t of None \<Rightarrow> False | Some c \<Rightarrow> cause_code c = ''SQLITE_ERROR'')
            then Inr \<lparr>res_count = 0, res_items = [], res_next = None\<rparr>
            else Inl (Thrown t))"
  using assms
  by (cases "client_all E (world s) (buildGetQuery E keyspace req (tableOrData table) sch incl)")
     (auto simp: u_get_def get_catch_def emptyResult_def)

theorem get_absorbs_sqlite_error_witness:
  "fst (client_all exampleEnv (world freshDb)
          (buildGetQuery exampleEnv ''d_t'' emptyRequest (tableOrData (Some ''data'')) (exampleSchema ''v1'') None))
     = Inl (noSuchTable ''d_t_data'')
   \<and> fst (u_get exampleEnv ''d_t'' emptyRequest (Some ''data'') (Some (exampleSchema ''v1'')) None freshDb)
     = Inr \<lparr>res_count = 0, res_items = [], res_next = None\<rparr>
   \<and> fst (client_all constraintEnv (world storedDb)
          (buildGetQuery constraintEnv ''d_t'' emptyRequest (tableOrData (Some ''data'')) (exampleSchema ''v1'') None))
     = Inl constraintError
   \<and> fst (u_get constraintEnv ''d_t'' emptyRequest (Some ''data'') (Some (exampleSchema ''v1'')) None storedDb)
     = Inl (Thrown constraintError)"
proof -
  have a: "fst (client_all exampleEnv (world freshDb)
          (buildGetQuery exampleEnv ''d_t'' emptyRequest (tableOrData (Some ''data'')) (exampleSchema ''v1'') None))
     = Inl (noSuchTable ''d_t_data'')"
    by (simp add: example_defs tableOrData_def)
  have b: "fst (client_all constraintEnv (world storedDb)
          (buildGetQuery constraintEnv ''d_t'' emptyRequest (tableOrData (Some ''data'')) (exampleSchema ''v1'') None))
     = Inl constraintError"
    by (simp add: example_defs tableOrData_def)
  from get_absorbs_sqlite_error [OF a] get_absorbs_sqlite_error [OF b] a b show ?thesis
    by (simp add: noSuchTable_def constraintError_def)
qed

section \<open>Operations on a keyspace without metadata\<close>

text \<open>
  C7, as stated, fails: on a keyspace without a metadata row, \<open>get\<close> and \<open>put\<close> fail with
  a plain \<open>Error\<close>, which has no status.
\<close>

theorem no_metadata_counterexample:
  "fst (u_get exampleEnv ''d_t'' emptyRequest (Some ''meta'') (Some exampleInfoSchema) None freshDb)
     = Inr \<lparr>res_count = 0, res_items = [], res_next = None\<rparr>
   \<and> fst (get exampleEnv ''d'' (emptyRequest\<lparr>rq_table := Some ''t''\<rparr>) freshDb)
     = Inl (Error ''restbase-sqlite3: No schema for d_t_data'')
   \<and> fst (put exampleEnv ''d'' (emptyRequest\<lparr>rq_table := Some ''t''\<rparr>) freshDb)
     = Inl (Error ''Table not found!'')"
  by (simp add: read_defs example_defs get_def put_def u_getSchema_def write_defs)

text \<open>
  C7, amended. Against a keyspace for which the \<open>meta\<close> read returns no row,
  \<open>getTableSchema\<close> fails with the structured 404 \<open>notfound\<close>; \<open>get\<close> and \<open>put\<close>, when the
  cache has no schema for the keyspace, fail with the plain errors
  \<open>restbase-sqlite3: No schema for <keyspace>_data\<close> and \<open>Table not found!\<close>.
\<close>

theorem no_metadata_failures:
  assumes nometa: "u_get E keyspace emptyRequest (Some ''meta'') (Some (infoSchemaInfo E)) None s = (Inr res, s1)"
    and empty: "res_items res = []"
    and ks: "keyspace = keyspaceName E domain (Some table)"
    and tbl: "rq_table req = Some table"
    and miss: "cached s keyspace = None"
  shows "fst (getTableSchema E domain table s) =
           Inl (HTTPError \<lparr>he_status = 404, he_type = ''notfound'',
                  he_title = ''the requested table schema was not found'',
                  he_keyspace = None, he_schema = None\<rparr>)
       \<and> fst (get E domain req s) = Inl (Error (''restbase-sqlite3: No schema for '' @ keyspace @ ''_data''))
       \<and> fst (put E domain req s) = Inl (Error ''Table not found!'')"
proof -
  have gs: "u_getSchema E keyspace s = (Inr None, s1)"
    using nometa empty by (rule u_getSchema_no_items)
  have a: "fst (getTableSchema E domain table s) =
           Inl (HTTPError \<lparr>he_status = 404, he_type = ''notfound'',
                  he_title = ''the requested table schema was not found'',
                  he_keyspace = None, he_schema = None\<rparr>)"
    using nometa empty ks by (simp add: getTableSchema_def Let_def)
  have b: "fst (get E domain req s) = Inl (Error (''restbase-sqlite3: No schema for '' @ keyspace @ ''_data''))"
    using gs ks tbl miss by (simp add: get_def u_get_def tableOrData_def Let_def)
  have c: "fst (put E domain req s) = Inl (Error ''Table not found!'')"
    using gs ks tbl miss
    by (simp add: put_def u_put_def put_write_def putSchema_def tableOrData_def cached_def Let_def)
  from a b c show ?thesis by simp
qed

theorem no_metadata_failures_witness:
  "fst (getTableSchema exampleEnv ''d'' ''t'' freshDb) =
           Inl (HTTPError \<lparr>he_status = 404, he_type = ''notfound'',
                  he_title = ''the requested table schema was not found'',
                  he_keyspace = None, he_schema = None\<rparr>)
   \<and> fst (get exampleEnv ''d'' (emptyRequest\<lparr>rq_table := Some ''t''\<rparr>) freshDb)
     = Inl (Error ''restbase-sqlite3: No schema for d_t_data'')
   \<and> fst (put exampleEnv ''d'' (emptyRequest\<lparr>rq_table := Some ''t''\<rparr>) freshDb)
     = Inl (Error ''Table not found!'')"
proof -
  have h: "u_get exampleEnv ''d_t'' emptyRequest (Some ''meta'') (Some (infoSchemaInfo exampleEnv)) None freshDb
      = (Inr \<lparr>res_count = 0, res_items = [], res_next = None\<rparr>,
         freshDb\<lparr>trace := [EvAll \<lparr>gq_sql = ''select d_t_meta'', gq_params = []\<rparr>]\<rparr>)"
    by (simp add: read_defs example_defs)
  have e: "res_items \<lparr>res_count = 0, res_items = [], res_next = None\<rparr> = []" by simp
  have k: "''d_t'' = keyspaceName exampleEnv ''d'' (Some ''t'')" by (simp add: exampleEnv_def)
  have t: "rq_table (emptyRequest\<lparr>rq_table := Some ''t''\<rparr>) = Some ''t''" by simp
  have m: "cached freshDb ''d_t'' = None" by (simp add: cached_def freshDb_def)
  from no_metadata_failures [OF h e k t m] show ?thesis by simp
qed

section \<open>Creating, migrating and dropping a table\<close>

text \<open>
  C2, as stated, fails in its last part: the call that creates the table and the call that
  finds the same schema stored both resolve to \<open>{status: 201}\<close>. (The first run below
  creates \<open>d_t\<close>; the second, on the state the first left, issues only the \<open>meta\<close> read.)
\<close>

theorem createTable_same_hash_counterexample:
  "fst (createTable exampleEnv ''d'' \<lparr>tr_table = ''t'', tr_declaration = ''v1''\<rparr> freshDb) = Inr (Status 201)
   \<and> trace (snd (createTable exampleEnv ''d'' \<lparr>tr_table = ''t'', tr_declaration = ''v1''\<rparr> freshDb)) =
       [EvAll \<lparr>gq_sql = ''select d_t_meta'', gq_params = []\<rparr>,
        EvRun [\<lparr>st_sql = ''create table d_t_data'', st_params = None\<rparr>,
               \<lparr>st_sql = ''create table d_t_meta'', st_params = None\<rparr>,
               \<lparr>st_sql = ''create table d_t_static'', st_params = None\<rparr>,
               \<lparr>st_sql = ''create view d_t_indexView'', st_params = None\<rparr>],
        EvRun [\<lparr>st_sql = ''insert d_t_meta'',
                st_params = Some [JStr ''schema'', JStr ''v1'', JStr ''t1'']\<rparr>]]
   \<and> createTable exampleEnv ''d'' \<lparr>tr_table = ''t'', tr_declaration = ''v1''\<rparr>
        (snd (createTable exampleEnv ''d'' \<lparr>tr_table = ''t'', tr_declaration = ''v1''\<rparr> freshDb))
     = (Inr (Status 201),
        (snd (createTable exampleEnv ''d'' \<lparr>tr_table = ''t'', tr_declaration = ''v1''\<rparr> freshDb))
          \<lparr>trace := trace (snd (createTable exampleEnv ''d'' \<lparr>tr_table = ''t'', tr_declaration = ''v1''\<rparr> freshDb))
                     @ [EvAll \<lparr>gq_sql = ''select d_t_meta'', gq_params = []\<rparr>]\<rparr>)"
  by (simp add: create_defs read_defs write_defs example_defs Let_def)

text \<open>
  C2, amended. When a current schema exists and its hash equals the hash of the candidate,
  \<open>createTable\<close> only reads \<open>meta\<close>: it runs no batch (no DDL, no metadata row), constructs
  no migrator, leaves the cache as it was, and returns the success status 201, which is
  the status of every successful \<open>createTable\<close>, the creating one included.
\<close>

theorem createTable_same_hash:
  assumes name: "tr_table req \<noteq> []"
    and ks: "keyspace = keyspaceName E domain (Some (tr_table req))"
    and cur: "u_getSchema E keyspace s = (Inr (Some cur), s1)"
    and cand: "validateAndNormalizeSchema E req = Inr schema"
    and same: "si_hash cur = si_hash (makeSchemaInfo E schema)"
  shows "fst (createTable E domain req s) = Inr (Status 201)
       \<and> world (snd (createTable E domain req s)) = world s1
       \<and> trace (snd (createTable E domain req s)) =
           trace s @ [EvAll (buildGetQuery E keyspace emptyRequest ''meta'' (infoSchemaInfo E) None)]
       \<and> schemaCache (snd (createTable E domain req s)) = schemaCache s
       \<and> (\<forall>E' domain' req' s0.
             case fst (createTable (E' :: ('w, 'd) env) domain' req' s0) of
               Inl e \<Rightarrow> True
             | Inr x \<Rightarrow> x = Status 201)"
proof -
  have r: "createTable E domain req s = (Inr (Status 201), s1)"
    using name ks cur cand same by (simp add: createTable_def Let_def)
  have t: "trace s1 = trace s @ [EvAll (buildGetQuery E keyspace emptyRequest ''meta'' (infoSchemaInfo E) None)]"
    using u_getSchema_trace [of E keyspace s] cur by simp
  have c: "schemaCache s1 = schemaCache s"
    using u_getSchema_schemaCache [of E keyspace s] cur by simp
  have st: "case fst (createTable E' domain' req' s0) of Inl e \<Rightarrow> True | Inr x \<Rightarrow> x = Status 201"
    for E' :: "('w, 'd) env" and domain' req' s0
    using createTable_status [of E' domain' req' s0]
    by (cases "createTable E' domain' req' s0") (auto split: sum.splits)
  from r t c st show ?thesis by simp
qed

theorem createTable_same_hash_witness:
  "createTable exampleEnv ''d'' \<lparr>tr_table = ''t'', tr_declaration = ''v1''\<rparr> storedDb
     = (Inr (Status 201), storedDb\<lparr>trace := [EvAll \<lparr>gq_sql = ''select d_t_meta'', gq_params = []\<rparr>]\<rparr>)
   \<and> fst (createTable exampleEnv ''d'' \<lparr>tr_table = ''t'', tr_declaration = ''v1''\<rparr> freshDb) = Inr (Status 201)"
proof -
  let ?req = "\<lparr>tr_table = ''t'', tr_declaration = ''v1''\<rparr>"
  have n: "tr_table ?req \<noteq> []" by simp
  have k: "''d_t'' = keyspaceName exampleEnv ''d'' (Some (tr_table ?req))"
    by (simp add: exampleEnv_def)
  have c: "u_getSchema exampleEnv ''d_t'' storedDb
     = (Inr (Some (exampleSchema ''v1'')),
        storedDb\<lparr>trace := [EvAll \<lparr>gq_sql = ''select d_t_meta'', gq_params = []\<rparr>]\<rparr>)"
    by (simp add: u_getSchema_def read_defs example_defs)
  have v: "validateAndNormalizeSchema exampleEnv ?req = Inr ''v1''"
    by (simp add: exampleEnv_def)
  have h: "si_hash (exampleSchema ''v1'') = si_hash (makeSchemaInfo exampleEnv ''v1'')"
    by (simp add: exampleEnv_def)
  have b: "fst (createTable exampleEnv ''d'' ?req freshDb) = Inr (Status 201)"
    by (simp add: create_defs read_defs write_defs example_defs Let_def)
  note t = createTable_same_hash [OF n k c v h]
  note a = t [THEN conjunct1]
  have w: "world (snd (createTable exampleEnv ''d'' ?req storedDb)) = world storedDb"
    using t [THEN conjunct2, THEN conjunct1] by simp
  have tr: "trace (snd (createTable exampleEnv ''d'' ?req storedDb))
                   = [EvAll \<lparr>gq_sql = ''select d_t_meta'', gq_params = []\<rparr>]"
    using t [THEN conjunct2, THEN conjunct2, THEN conjunct1]
    by (simp add: example_defs emptyRequest_def)
  note sc = t [THEN conjunct2, THEN conjunct2, THEN conjunct2, THEN conjunct1]
  have "snd (createTable exampleEnv ''d'' ?req storedDb)
      = storedDb\<lparr>trace := [EvAll \<lparr>gq_sql = ''select d_t_meta'', gq_params = []\<rparr>]\<rparr>"
    using w tr sc by (cases "snd (createTable exampleEnv ''d'' ?req storedDb)") (simp add: storedDb_def)
  with a b show ?thesis by (simp add: prod_eq_iff)
qed

text \<open>
  C3, as stated, fails: when \<open>migrate()\<close> rejects, the error it rejected with is logged and
  rethrown as it is; no 400 is built.
\<close>

theorem createTable_migration_counterexample:
  "fst (u_getSchema migrateFailsEnv ''d_t'' storedDb) = Inr (Some (exampleSchema ''v1''))
   \<and> si_hash (exampleSchema ''v1'') \<noteq> si_hash (makeSchemaInfo migrateFailsEnv ''v2'')
   \<and> fst (createTable migrateFailsEnv ''d'' \<lparr>tr_table = ''t'', tr_declaration = ''v2''\<rparr> storedDb)
       = Inl (Thrown constraintError)"
  by (simp add: create_defs read_defs write_defs example_defs Let_def)

text \<open>
  C3, amended. When a current schema exists and its hash differs from the candidate's, one
  \<open>SchemaMigrator\<close> is constructed with the current and the candidate schema, and nothing
  else is called on it but one \<open>migrate()\<close>. If the construction throws, the call fails with
  the 400 \<open>bad_request\<close> that carries the keyspace and the candidate schema. If \<open>migrate()\<close>
  rejects, the error is logged and returned unchanged. In both cases no batch is run and
  the cache is as before. If \<open>migrate()\<close> fulfils, the cache holds the candidate and the
  candidate is persisted as a \<open>meta\<close> row: the row \<open>{key: 'schema', value:
  JSON.stringify(schema)}\<close>, with the identifier generated for it and the time decoded from
  that identifier, is run on the engine as one batch, and the call resolves to 201 when the
  engine accepts it and rejects with the engine's failure otherwise. (The one way to no
  batch after a fulfilled \<open>migrate()\<close> is an identifier that does not decode, which throws
  in \<open>_put\<close> before the batch.)
\<close>

theorem createTable_migration:
  assumes name: "tr_table req \<noteq> []"
    and ks: "keyspace = keyspaceName E domain (Some (tr_table req))"
    and cur: "u_getSchema E keyspace s = (Inr (Some cur), s1)"
    and cand: "validateAndNormalizeSchema E req = Inr schema"
    and si: "candidate = makeSchemaInfo E schema"
    and differ: "si_hash cur \<noteq> si_hash candidate"
    and mig: "SchemaMigrator_migrate E req keyspace cur candidate (world s1) = (migrated, w')"
    and given: "given = obj_get [(''key'', JStr ''schema''), (''value'', JStr (JSON_stringify E schema))]
                          (si_tid (infoSchemaInfo E))"
    and row: "row = \<lparr>rq_table = None,
                     rq_attributes =
                       (if truthy given
                        then [(''key'', JStr ''schema''), (''value'', JStr (JSON_stringify E schema))]
                        else obj_set [(''key'', JStr ''schema''), (''value'', JStr (JSON_stringify E schema))]
                               (si_tid (infoSchemaInfo E)) (JStr (fst (TimeUuid_now E w')))),
                     rq_limit = None, rq_next = None, rq_order = [], rq_timestamp = None\<rparr>"
    and w2: "w'' = (if truthy given then w' else snd (TimeUuid_now E w'))"
    and decoded: "decoded = (case js_toString (if truthy given then given
                                                else JStr (fst (TimeUuid_now E w'))) of
                               None \<Rightarrow> Inl TypeError
                             | Some str \<Rightarrow> TimeUuid_getDate E str)"
    and batch: "batch = (\<lambda>date.
                  pq_data (buildPutQuery E (row\<lparr>rq_timestamp := Some date\<rparr>) keyspace ''meta'' (infoSchemaInfo E)) #
                  (case pq_static (buildPutQuery E (row\<lparr>rq_timestamp := Some date\<rparr>) keyspace ''meta''
                                     (infoSchemaInfo E)) of
                     None \<Rightarrow> [] | Some st \<Rightarrow> [st]))"
  shows "case SchemaMigrator_check E req keyspace cur candidate of
           Some err \<Rightarrow>
             createTable E domain req s =
               (Inl (HTTPError \<lparr>he_status = 400, he_type = ''bad_request'',
                       he_title = ''The table already exists, and its schema cannot be upgraded to the requested schema (''
                                  @ error_toString E err @ '').'',
                       he_keyspace = Some keyspace, he_schema = Some candidate\<rparr>),
                s1\<lparr>trace := trace s1 @ [EvNewMigrator req keyspace cur candidate]\<rparr>)
             \<and> schemaCache (snd (createTable E domain req s)) = schemaCache s
         | None \<Rightarrow>
             (case migrated of
                Inl err \<Rightarrow>
                  createTable E domain req s =
                    (Inl err,
                     s1\<lparr>world := w',
                        trace := trace s1 @ [EvNewMigrator req keyspace cur candidate,
                                             EvMigrate req keyspace cur candidate,
                                             EvLog ''error/cassandra/table_update'' err]\<rparr>)
                  \<and> schemaCache (snd (createTable E domain req s)) = schemaCache s
              | Inr u \<Rightarrow>
                  schemaCache (snd (createTable E domain req s)) =
                    (schemaCache s)(keyspace \<mapsto> Some candidate)
                  \<and> (case decoded of
                        Inl e \<Rightarrow>
                          createTable E domain req s =
                            (Inl e,
                             s1\<lparr>world := w'',
                                trace := trace s1 @ [EvNewMigrator req keyspace cur candidate,
                                                     EvMigrate req keyspace cur candidate],
                                schemaCache := (schemaCache s1)(keyspace \<mapsto> Some candidate)\<rparr>)
                      | Inr date \<Rightarrow>
                          createTable E domain req s =
                            (case fst (client_run E w'' (batch date)) of
                               Inl t \<Rightarrow> Inl (Thrown t) | Inr u \<Rightarrow> Inr (Status 201),
                             s1\<lparr>world := snd (client_run E w'' (batch date)),
                                trace := trace s1 @ [EvNewMigrator req keyspace cur candidate,
                                                     EvMigrate req keyspace cur candidate,
                                                     EvRun (batch date)],
                                schemaCache := (schemaCache s1)(keyspace \<mapsto> Some candidate)\<rparr>)))"
proof -
  have c1: "schemaCache s1 = schemaCache s"
    using u_getSchema_schemaCache [of E keyspace s] cur by simp
  show ?thesis
  proof (cases "SchemaMigrator_check E req keyspace cur candidate")
    case (Some err)
    then show ?thesis
      using name ks cur cand si differ c1
      by (simp add: createTable_def Let_def badRequest_def)
  next
    case None
    show ?thesis
    proof (cases migrated)
      case (Inl err)
      then show ?thesis
        using None mig name ks cur cand si differ c1
        by (simp add: createTable_def Let_def)
    next
      case (Inr u)
      let ?sM = "s1\<lparr>world := w',
                    trace := trace s1 @ [EvNewMigrator req keyspace cur candidate,
                                         EvMigrate req keyspace cur candidate],
                    schemaCache := (schemaCache s1)(keyspace \<mapsto> Some candidate)\<rparr>"
      have e: "createTable E domain req s =
                 (case u_put E keyspace (schemaRow E schema) (Some ''meta'') ?sM of (r, req', s') \<Rightarrow> (r, s'))"
        using Inr None mig name ks cur cand si differ
        by (simp add: createTable_def Let_def createTable_then_def)
      have g': "given = obj_get (rq_attributes (schemaRow E schema)) (si_tid (infoSchemaInfo E))"
        using given by (simp add: schemaRow_def emptyRequest_def)
      have r': "row = (schemaRow E schema)\<lparr>rq_attributes :=
                 (if truthy given then rq_attributes (schemaRow E schema)
                  else obj_set (rq_attributes (schemaRow E schema)) (si_tid (infoSchemaInfo E))
                         (JStr (fst (TimeUuid_now E (world ?sM)))))\<rparr>"
        using row by (simp add: schemaRow_def emptyRequest_def)
      have w': "w'' = (if truthy given then world ?sM else snd (TimeUuid_now E (world ?sM)))"
        using w2 by simp
      have d': "decoded = (case js_toString (if truthy given then given
                                                else JStr (fst (TimeUuid_now E (world ?sM)))) of
                               None \<Rightarrow> Inl TypeError
                             | Some str \<Rightarrow> TimeUuid_getDate E str)"
        using decoded by simp
      note m = meta_put_exact [OF g' r' w' d' batch]
      have x: "createTable E domain req s =
           (case decoded of
              Inl e \<Rightarrow> (Inl e, ?sM\<lparr>world := w''\<rparr>)
            | Inr date \<Rightarrow>
                (case fst (client_run E w'' (batch date)) of
                   Inl t \<Rightarrow> Inl (Thrown t) | Inr u \<Rightarrow> Inr (Status 201),
                 ?sM\<lparr>world := snd (client_run E w'' (batch date)),
                   trace := trace ?sM @ [EvRun (batch date)]\<rparr>))"
        using e m by simp
      have c: "schemaCache (snd (createTable E domain req s)) = (schemaCache s)(keyspace \<mapsto> Some candidate)"
        using x c1 by (cases decoded) simp_all
      show ?thesis
        using x c Inr None by (cases decoded) simp_all
    qed
  qed
qed

theorem createTable_migration_witness:
  "fst (createTable exampleEnv ''d'' \<lparr>tr_table = ''t'', tr_declaration = ''v2''\<rparr> storedDb) = Inr (Status 201)
   \<and> schemaCache (snd (createTable exampleEnv ''d'' \<lparr>tr_table = ''t'', tr_declaration = ''v2''\<rparr> storedDb)) ''d_t''
       = Some (Some (exampleSchema ''v2''))
   \<and> trace (snd (createTable exampleEnv ''d'' \<lparr>tr_table = ''t'', tr_declaration = ''v2''\<rparr> storedDb))
       = [EvAll \<lparr>gq_sql = ''select d_t_meta'', gq_params = []\<rparr>,
          EvNewMigrator \<lparr>tr_table = ''t'', tr_declaration = ''v2''\<rparr> ''d_t'' (exampleSchema ''v1'') (exampleSchema ''v2''),
          EvMigrate \<lparr>tr_table = ''t'', tr_declaration = ''v2''\<rparr> ''d_t'' (exampleSchema ''v1'') (exampleSchema ''v2''),
          EvRun [\<lparr>st_sql = ''insert d_t_meta'', st_params = Some [JStr ''schema'', JStr ''v2'', JStr ''t2'']\<rparr>]]
   \<and> tw_meta (world (snd (createTable exampleEnv ''d'' \<lparr>tr_table = ''t'', tr_declaration = ''v2''\<rparr> storedDb)))
       = [[(''key'', JStr ''schema''), (''value'', JStr ''v2''), (''tid'', JStr ''t2'')],
          [(''key'', JStr ''schema''), (''value'', JStr ''v1''), (''tid'', JStr ''t1'')]]
   \<and> fst (createTable migrateFailsEnv ''d'' \<lparr>tr_table = ''t'', tr_declaration = ''v2''\<rparr> storedDb)
       = Inl (Thrown constraintError)
   \<and> schemaCache (snd (createTable migrateFailsEnv ''d'' \<lparr>tr_table = ''t'', tr_declaration = ''v2''\<rparr> storedDb))
       = schemaCache storedDb
   \<and> trace (snd (createTable migrateFailsEnv ''d'' \<lparr>tr_table = ''t'', tr_declaration = ''v2''\<rparr> storedDb))
       = [EvAll \<lparr>gq_sql = ''select d_t_meta'', gq_params = []\<rparr>,
          EvNewMigrator \<lparr>tr_table = ''t'', tr_declaration = ''v2''\<rparr> ''d_t'' (exampleSchema ''v1'') (exampleSchema ''v2''),
          EvMigrate \<lparr>tr_table = ''t'', tr_declaration = ''v2''\<rparr> ''d_t'' (exampleSchema ''v1'') (exampleSchema ''v2''),
          EvLog ''error/cassandra/table_update'' (Thrown constraintError)]
   \<and> fst (createTable migratorRefusesEnv ''d'' \<lparr>tr_table = ''t'', tr_declaration = ''v2''\<rparr> storedDb)
       = Inl (HTTPError \<lparr>he_status = 400, he_type = ''bad_request'',
                he_title = ''The table already exists, and its schema cannot be upgraded to the requested schema (Error).'',
                he_keyspace = Some ''d_t'', he_schema = Some (exampleSchema ''v2'')\<rparr>)
   \<and> trace (snd (createTable migratorRefusesEnv ''d'' \<lparr>tr_table = ''t'', tr_declaration = ''v2''\<rparr> storedDb))
       = [EvAll \<lparr>gq_sql = ''select d_t_meta'', gq_params = []\<rparr>,
          EvNewMigrator \<lparr>tr_table = ''t'', tr_declaration = ''v2''\<rparr> ''d_t'' (exampleSchema ''v1'') (exampleSchema ''v2'')]"
proof -
  let ?req = "\<lparr>tr_table = ''t'', tr_declaration = ''v2''\<rparr>"
  let ?s1 = "storedDb\<lparr>trace := [EvAll \<lparr>gq_sql = ''select d_t_meta'', gq_params = []\<rparr>]\<rparr>"
  have n: "tr_table ?req \<noteq> []" by simp
  have d: "si_hash (exampleSchema ''v1'') \<noteq> si_hash (exampleSchema ''v2'')"
    by (simp add: exampleSchema_def)
  have k1: "''d_t'' = keyspaceName exampleEnv ''d'' (Some (tr_table ?req))"
    and k2: "''d_t'' = keyspaceName migrateFailsEnv ''d'' (Some (tr_table ?req))"
    and k3: "''d_t'' = keyspaceName migratorRefusesEnv ''d'' (Some (tr_table ?req))"
    by (simp_all add: example_defs)
  have c1: "u_getSchema exampleEnv ''d_t'' storedDb = (Inr (Some (exampleSchema ''v1'')), ?s1)"
    and c2: "u_getSchema migrateFailsEnv ''d_t'' storedDb = (Inr (Some (exampleSchema ''v1'')), ?s1)"
    and c3: "u_getSchema migratorRefusesEnv ''d_t'' storedDb = (Inr (Some (exampleSchema ''v1'')), ?s1)"
    by (simp_all add: u_getSchema_def read_defs example_defs)
  have v1: "validateAndNormalizeSchema exampleEnv ?req = Inr ''v2''"
    and v2: "validateAndNormalizeSchema migrateFailsEnv ?req = Inr ''v2''"
    and v3: "validateAndNormalizeSchema migratorRefusesEnv ?req = Inr ''v2''"
    by (simp_all add: example_defs)
  have i1: "exampleSchema ''v2'' = makeSchemaInfo exampleEnv ''v2''"
    and i2: "exampleSchema ''v2'' = makeSchemaInfo migrateFailsEnv ''v2''"
    and i3: "exampleSchema ''v2'' = makeSchemaInfo migratorRefusesEnv ''v2''"
    by (simp_all add: example_defs)
  have m1: "SchemaMigrator_migrate exampleEnv ?req ''d_t'' (exampleSchema ''v1'') (exampleSchema ''v2'') (world ?s1)
              = (Inr (), world ?s1)"
    and m2: "SchemaMigrator_migrate migrateFailsEnv ?req ''d_t'' (exampleSchema ''v1'') (exampleSchema ''v2'') (world ?s1)
              = (Inl (Thrown constraintError), world ?s1)"
    and m3: "SchemaMigrator_migrate migratorRefusesEnv ?req ''d_t'' (exampleSchema ''v1'') (exampleSchema ''v2'') (world ?s1)
              = (Inr (), world ?s1)"
    by (simp_all add: exampleEnv_def migrateFailsEnv_def migratorRefusesEnv_def)
  have a: "fst (createTable exampleEnv ''d'' ?req storedDb) = Inr (Status 201)
     \<and> schemaCache (snd (createTable exampleEnv ''d'' ?req storedDb)) ''d_t'' = Some (Some (exampleSchema ''v2''))
     \<and> trace (snd (createTable exampleEnv ''d'' ?req storedDb))
       = [EvAll \<lparr>gq_sql = ''select d_t_meta'', gq_params = []\<rparr>,
          EvNewMigrator ?req ''d_t'' (exampleSchema ''v1'') (exampleSchema ''v2''),
          EvMigrate ?req ''d_t'' (exampleSchema ''v1'') (exampleSchema ''v2''),
          EvRun [\<lparr>st_sql = ''insert d_t_meta'', st_params = Some [JStr ''schema'', JStr ''v2'', JStr ''t2'']\<rparr>]]
     \<and> tw_meta (world (snd (createTable exampleEnv ''d'' ?req storedDb)))
       = [[(''key'', JStr ''schema''), (''value'', JStr ''v2''), (''tid'', JStr ''t2'')],
          [(''key'', JStr ''schema''), (''value'', JStr ''v1''), (''tid'', JStr ''t1'')]]"
    using createTable_migration [OF n k1 c1 v1 i1 d m1 refl refl refl refl refl]
    by (simp add: exampleEnv_def obj_get_def exampleInfoSchema_def
          exampleRun_def storedDb_def storedWorld_def)
  have b: "fst (createTable migrateFailsEnv ''d'' ?req storedDb) = Inl (Thrown constraintError)
     \<and> schemaCache (snd (createTable migrateFailsEnv ''d'' ?req storedDb)) = schemaCache storedDb
     \<and> trace (snd (createTable migrateFailsEnv ''d'' ?req storedDb))
       = [EvAll \<lparr>gq_sql = ''select d_t_meta'', gq_params = []\<rparr>,
          EvNewMigrator ?req ''d_t'' (exampleSchema ''v1'') (exampleSchema ''v2''),
          EvMigrate ?req ''d_t'' (exampleSchema ''v1'') (exampleSchema ''v2''),
          EvLog ''error/cassandra/table_update'' (Thrown constraintError)]"
    using createTable_migration [OF n k2 c2 v2 i2 d m2 refl refl refl refl refl]
    by (simp add: migrateFailsEnv_def exampleEnv_def)
  have c: "fst (createTable migratorRefusesEnv ''d'' ?req storedDb)
       = Inl (HTTPError \<lparr>he_status = 400, he_type = ''bad_request'',
                he_title = ''The table already exists, and its schema cannot be upgraded to the requested schema (Error).'',
                he_keyspace = Some ''d_t'', he_schema = Some (exampleSchema ''v2'')\<rparr>)
     \<and> trace (snd (createTable migratorRefusesEnv ''d'' ?req storedDb))
       = [EvAll \<lparr>gq_sql = ''select d_t_meta'', gq_params = []\<rparr>,
          EvNewMigrator ?req ''d_t'' (exampleSchema ''v1'') (exampleSchema ''v2'')]"
    using createTable_migration [OF n k3 c3 v3 i3 d m3 refl refl refl refl refl]
    by (simp add: migratorRefusesEnv_def exampleEnv_def)
  from a b c show ?thesis by simp
qed

text \<open>
  C8. \<open>dropTable\<close> takes the schema from the cache, evicting the entry, or else loads it
  from \<open>meta\<close>. It then runs one batch: drop the index view, \<open>meta\<close> and \<open>data\<close>, and
  also \<open>static\<close> exactly when the schema found says there is one; when no schema was
  found the three fixed drops are run and \<open>static\<close> is left out. Afterwards the cache has
  no schema for the keyspace.
\<close>

theorem dropTable_batch:
  assumes ks: "keyspace = keyspaceName E domain (Some table)"
    and resolve: "case cached s keyspace of
                    Some sch \<Rightarrow> schema = Some sch \<and> s1 = s\<lparr>schemaCache := (schemaCache s)(keyspace := None)\<rparr>
                  | None \<Rightarrow> u_getSchema E keyspace s = (Inr schema, s1)"
    and batch: "batch = [\<lparr>st_sql = ''drop view '' @ keyspace @ ''_indexView'', st_params = None\<rparr>,
                         \<lparr>st_sql = ''drop table '' @ keyspace @ ''_meta'', st_params = None\<rparr>,
                         \<lparr>st_sql = ''drop table '' @ keyspace @ ''_data'', st_params = None\<rparr>]
                        @ (if (case schema of None \<Rightarrow> False | Some si \<Rightarrow> hasStaticTable E si)
                           then [\<lparr>st_sql = ''drop table '' @ keyspace @ ''_static'', st_params = None\<rparr>]
                           else [])"
  shows "snd (dropTable E domain table s) =
           s1\<lparr>world := snd (client_run E (world s1) batch), trace := trace s1 @ [EvRun batch]\<rparr>
       \<and> fst (dropTable E domain table s) =
           (case fst (client_run E (world s1) batch) of Inl t \<Rightarrow> Inl (Thrown t) | Inr u \<Rightarrow> Inr ())
       \<and> cached (snd (dropTable E domain table s)) keyspace = None"
proof -
  have q: "[sqlOnly (''drop view '' @ keyspace @ ''_indexView''),
            sqlOnly (''drop table '' @ keyspace @ ''_meta''),
            sqlOnly (''drop table '' @ keyspace @ ''_data'')]
           @ (if staticTableExist E schema
              then [sqlOnly (''drop table '' @ keyspace @ ''_static'')] else []) = batch"
    using batch by (simp add: staticTableExist_def sqlOnly_def)
  have d: "deleteRequest E keyspace schema s1 =
             (case fst (client_run E (world s1) batch) of Inl t \<Rightarrow> Inl (Thrown t) | Inr u \<Rightarrow> Inr (),
              s1\<lparr>world := snd (client_run E (world s1) batch), trace := trace s1 @ [EvRun batch]\<rparr>)"
    unfolding deleteRequest_def Let_def q
    by (simp split: prod.split)
  show ?thesis
  proof (cases "cached s keyspace")
    case None
    with resolve have g: "u_getSchema E keyspace s = (Inr schema, s1)" by simp
    have c: "schemaCache s1 = schemaCache s"
      using u_getSchema_schemaCache [of E keyspace s] g by simp
    have e: "dropTable E domain table s = deleteRequest E keyspace schema s1"
      using None g ks by (simp add: dropTable_def Let_def)
    from None c have "cached s1 keyspace = None" by (simp add: cached_def)
    then show ?thesis using e d by (simp add: cached_def)
  next
    case (Some sch)
    with resolve have r: "schema = Some sch" "s1 = s\<lparr>schemaCache := (schemaCache s)(keyspace := None)\<rparr>"
      by simp_all
    have e: "dropTable E domain table s = deleteRequest E keyspace schema s1"
      using Some r ks by (simp add: dropTable_def Let_def)
    then show ?thesis using d r by (simp add: cached_def)
  qed
qed

theorem dropTable_batch_witness:
  "cached revisionsDb ''d_t'' = Some (exampleSchema ''v1'')
   \<and> trace (snd (dropTable staticEnv ''d'' ''t'' revisionsDb))
       = [EvRun [\<lparr>st_sql = ''drop view d_t_indexView'', st_params = None\<rparr>,
                 \<lparr>st_sql = ''drop table d_t_meta'', st_params = None\<rparr>,
                 \<lparr>st_sql = ''drop table d_t_data'', st_params = None\<rparr>,
                 \<lparr>st_sql = ''drop table d_t_static'', st_params = None\<rparr>]]
   \<and> cached (snd (dropTable staticEnv ''d'' ''t'' revisionsDb)) ''d_t'' = None
   \<and> fst (dropTable staticEnv ''d'' ''t'' revisionsDb) = Inr ()
   \<and> fst (u_getSchema staticEnv ''d_t'' freshDb) = Inr None
   \<and> trace (snd (dropTable staticEnv ''d'' ''t'' freshDb))
       = [EvAll \<lparr>gq_sql = ''select d_t_meta'', gq_params = []\<rparr>,
          EvRun [\<lparr>st_sql = ''drop view d_t_indexView'', st_params = None\<rparr>,
                 \<lparr>st_sql = ''drop table d_t_meta'', st_params = None\<rparr>,
                 \<lparr>st_sql = ''drop table d_t_data'', st_params = None\<rparr>]]"
proof -
  let ?hit = "[\<lparr>st_sql = ''drop view '' @ ''d_t'' @ ''_indexView'', st_params = None\<rparr>,
               \<lparr>st_sql = ''drop table '' @ ''d_t'' @ ''_meta'', st_params = None\<rparr>,
               \<lparr>st_sql = ''drop table '' @ ''d_t'' @ ''_data'', st_params = None\<rparr>]
              @ (if (case Some (exampleSchema ''v1'') of None \<Rightarrow> False | Some si \<Rightarrow> hasStaticTable staticEnv si)
                 then [\<lparr>st_sql = ''drop table '' @ ''d_t'' @ ''_static'', st_params = None\<rparr>]
                 else [])"
  let ?miss = "[\<lparr>st_sql = ''drop view '' @ ''d_t'' @ ''_indexView'', st_params = None\<rparr>,
               \<lparr>st_sql = ''drop table '' @ ''d_t'' @ ''_meta'', st_params = None\<rparr>,
               \<lparr>st_sql = ''drop table '' @ ''d_t'' @ ''_data'', st_params = None\<rparr>]
              @ (if (case None of None \<Rightarrow> False | Some si \<Rightarrow> hasStaticTable staticEnv si)
                 then [\<lparr>st_sql = ''drop table '' @ ''d_t'' @ ''_static'', st_params = None\<rparr>]
                 else [])"
  let ?s1 = "freshDb\<lparr>trace := [EvAll \<lparr>gq_sql = ''select d_t_meta'', gq_params = []\<rparr>]\<rparr>"
  have k: "''d_t'' = keyspaceName staticEnv ''d'' (Some ''t'')"
    by (simp add: example_defs)
  have c: "cached revisionsDb ''d_t'' = Some (exampleSchema ''v1'')"
    by (simp add: cached_def revisionsDb_def)
  have r1: "case cached revisionsDb ''d_t'' of
              Some sch \<Rightarrow> Some (exampleSchema ''v1'') = Some sch
                         \<and> revisionsDb\<lparr>schemaCache := (schemaCache revisionsDb)(''d_t'' := None)\<rparr>
                           = revisionsDb\<lparr>schemaCache := (schemaCache revisionsDb)(''d_t'' := None)\<rparr>
            | None \<Rightarrow> u_getSchema staticEnv ''d_t'' revisionsDb
                        = (Inr (Some (exampleSchema ''v1'')),
                           revisionsDb\<lparr>schemaCache := (schemaCache revisionsDb)(''d_t'' := None)\<rparr>)"
    by (simp add: c)
  have g: "u_getSchema staticEnv ''d_t'' freshDb = (Inr None, ?s1)"
    by (simp add: u_getSchema_def read_defs example_defs)
  have m: "cached freshDb ''d_t'' = None"
    by (simp add: cached_def freshDb_def)
  have r2: "case cached freshDb ''d_t'' of
              Some sch \<Rightarrow> None = Some sch \<and> ?s1 = freshDb\<lparr>schemaCache := (schemaCache freshDb)(''d_t'' := None)\<rparr>
            | None \<Rightarrow> u_getSchema staticEnv ''d_t'' freshDb = (Inr None, ?s1)"
    by (simp add: g m)
  have a: "trace (snd (dropTable staticEnv ''d'' ''t'' revisionsDb))
       = [EvRun [\<lparr>st_sql = ''drop view d_t_indexView'', st_params = None\<rparr>,
                 \<lparr>st_sql = ''drop table d_t_meta'', st_params = None\<rparr>,
                 \<lparr>st_sql = ''drop table d_t_data'', st_params = None\<rparr>,
                 \<lparr>st_sql = ''drop table d_t_static'', st_params = None\<rparr>]]
     \<and> cached (snd (dropTable staticEnv ''d'' ''t'' revisionsDb)) ''d_t'' = None
     \<and> fst (dropTable staticEnv ''d'' ''t'' revisionsDb) = Inr ()"
    using dropTable_batch [OF k r1 refl]
    by (simp add: staticEnv_def exampleEnv_def revisionsDb_def cached_def)
  have b: "trace (snd (dropTable staticEnv ''d'' ''t'' freshDb))
       = [EvAll \<lparr>gq_sql = ''select d_t_meta'', gq_params = []\<rparr>,
          EvRun [\<lparr>st_sql = ''drop view d_t_indexView'', st_params = None\<rparr>,
                 \<lparr>st_sql = ''drop table d_t_meta'', st_params = None\<rparr>,
                 \<lparr>st_sql = ''drop table d_t_data'', st_params = None\<rparr>]]"
    using dropTable_batch [OF k r2 refl]
    by (simp add: staticEnv_def exampleEnv_def freshDb_def)
  from a b c g show ?thesis by simp
qed

section \<open>The write path: version identifier, timestamp, retention\<close>

text \<open>
  C4. A put whose attribute map has no value for the schema's \<open>tid\<close> attribute gets the
  identifier that \<open>TimeUuid.now()\<close> generates at that moment, and the generator moves on.
  Under the contract of the generator the identifier is fresh: it was not given out before,
  it counts as given out afterwards, and its time is not before the time of any identifier
  given out before. The row is built from the request that carries the identifier, and the
  batch with that row is run on the engine: the state the put leaves is the engine's after
  the batch (followed, on \<open>data\<close>, by the retention step), and the put resolves to 201
  exactly when the engine accepts the batch. For every put, generated identifier or not,
  the timestamp of the request the row is built from is the date decoded from the
  identifier used; the wall clock plays no part in it: whatever \<open>Date\<close> returns, the stored
  request is the same. The hypotheses say that the put reaches the write: a schema is
  resolved and the identifier decodes. Stated on \<open>_put\<close>, which \<open>put\<close> and \<open>createTable\<close>
  both call.
\<close>

theorem put_tid_and_timestamp:
  assumes schema: "putSchema E s keyspace (tableOrData table) = Some sch"
    and tid: "tidUsed = (if truthy (obj_get (rq_attributes req) (si_tid sch))
                         then obj_get (rq_attributes req) (si_tid sch)
                         else JStr (fst (TimeUuid_now E (world s))))"
    and str: "js_toString tidUsed = Some str"
    and date: "TimeUuid_getDate E str = Inr date"
    and stored: "stored = fst (snd (u_put E keyspace req table s))"
    and w1: "w1 = (if truthy (obj_get (rq_attributes req) (si_tid sch)) then world s
                   else snd (TimeUuid_now E (world s)))"
    and batch: "batch = pq_data (buildPutQuery E stored keyspace (tableOrData table) sch) #
                        (case pq_static (buildPutQuery E stored keyspace (tableOrData table) sch) of
                           None \<Rightarrow> [] | Some st \<Rightarrow> [st])"
    and written: "written = s\<lparr>world := snd (client_run E w1 batch), trace := trace s @ [EvRun batch]\<rparr>"
  shows "(obj_get (rq_attributes req) (si_tid sch) = JUndefined \<longrightarrow>
            obj_get (rq_attributes stored) (si_tid sch) = JStr (fst (TimeUuid_now E (world s))))
       \<and> obj_get (rq_attributes stored) (si_tid sch) = tidUsed
       \<and> rq_timestamp stored = Some date
       \<and> (\<exists>more rest. trace (snd (snd (u_put E keyspace req table s))) =
             trace s @ EvRun (pq_data (buildPutQuery E stored keyspace (tableOrData table) sch) # more) # rest)
       \<and> (\<forall>clock. fst (snd (u_put (E\<lparr>Date_getTime := clock\<rparr>) keyspace req table s)) = stored)
       \<and> fst (u_put E keyspace req table s) =
           (case fst (client_run E w1 batch) of Inl t \<Rightarrow> Inl (Thrown t) | Inr u \<Rightarrow> Inr (Status 201))
       \<and> snd (snd (u_put E keyspace req table s)) =
           (case fst (client_run E w1 batch) of
              Inl t \<Rightarrow> written
            | Inr u \<Rightarrow> if tableOrData table = ''data''
                       then snd (u_revisionPolicyUpdate E keyspace stored sch written)
                       else written)
       \<and> (obj_get (rq_attributes req) (si_tid sch) = JUndefined \<longrightarrow>
          generatorContract E issued \<longrightarrow>
            fst (TimeUuid_now E (world s)) \<notin> issued (world s)
          \<and> issued w1 = insert (fst (TimeUuid_now E (world s))) (issued (world s))
          \<and> (\<forall>v \<in> issued (world s). \<forall>a. TimeUuid_getDate E v = Inr a \<longrightarrow> a \<le> date))"
proof -
  note w = put_write_request [OF schema tid str date]
  have st: "stored = fst (snd (put_write E keyspace req table s))"
    using stored by (simp add: u_put_request)
  have st': "stored = req\<lparr>rq_attributes :=
                  (if truthy (obj_get (rq_attributes req) (si_tid sch)) then rq_attributes req
                   else obj_set (rq_attributes req) (si_tid sch) (JStr (fst (TimeUuid_now E (world s))))),
               rq_timestamp := Some date\<rparr>"
    using st w(1) by simp
  have pw: "put_write E keyspace req table s =
           (case fst (client_run E w1 batch) of Inl t \<Rightarrow> Inl (Thrown t) | Inr u \<Rightarrow> Inr sch,
            stored, written)"
    using put_write_exact [OF schema tid str date w1 st' batch] written by simp
  have a: "obj_get (rq_attributes stored) (si_tid sch) = tidUsed"
    using st w(1) tid by (simp add: obj_get_obj_set_same)
  have b: "rq_timestamp stored = Some date"
    using st w(1) by simp
  have f: "fst (u_put E keyspace req table s) =
           (case fst (client_run E w1 batch) of Inl t \<Rightarrow> Inl (Thrown t) | Inr u \<Rightarrow> Inr (Status 201))"
    using pw by (cases "fst (client_run E w1 batch)") (simp_all add: u_put_def)
  have g: "snd (snd (u_put E keyspace req table s)) =
           (case fst (client_run E w1 batch) of
              Inl t \<Rightarrow> written
            | Inr u \<Rightarrow> if tableOrData table = ''data''
                       then snd (u_revisionPolicyUpdate E keyspace stored sch written)
                       else written)"
    using pw by (cases "fst (client_run E w1 batch)") (simp_all add: u_put_def)
  have c: "\<exists>more rest. trace (snd (snd (u_put E keyspace req table s))) =
             trace s @ EvRun (pq_data (buildPutQuery E stored keyspace (tableOrData table) sch) # more) # rest"
  proof -
    have t: "trace written = trace s @ [EvRun batch]"
      using written by simp
    have "\<exists>rest. trace (snd (snd (u_put E keyspace req table s))) = trace written @ rest"
    proof (cases "fst (client_run E w1 batch)")
      case (Inl e)
      with g show ?thesis by simp
    next
      case (Inr u)
      obtain rest where "trace (snd (u_revisionPolicyUpdate E keyspace stored sch written)) = trace written @ rest"
        using u_revisionPolicyUpdate_trace_extends by blast
      with g Inr show ?thesis by simp
    qed
    then show ?thesis
      using t batch by auto
  qed
  have d: "fst (snd (u_put (E\<lparr>Date_getTime := clock\<rparr>) keyspace req table s)) = stored" for clock
    using st by (simp add: u_put_request put_write_clock)
  have h: "fst (TimeUuid_now E (world s)) \<notin> issued (world s)
          \<and> issued w1 = insert (fst (TimeUuid_now E (world s))) (issued (world s))
          \<and> (\<forall>v \<in> issued (world s). \<forall>a. TimeUuid_getDate E v = Inr a \<longrightarrow> a \<le> date)"
    if u: "obj_get (rq_attributes req) (si_tid sch) = JUndefined" and gc: "generatorContract E issued"
  proof -
    have w1': "w1 = snd (TimeUuid_now E (world s))"
      using w1 u by simp
    have s': "str = fst (TimeUuid_now E (world s))"
      using tid str u by simp
    from gc have "fst (TimeUuid_now E (world s)) \<notin> issued (world s)"
      and "issued (snd (TimeUuid_now E (world s))) = insert (fst (TimeUuid_now E (world s))) (issued (world s))"
      and "\<forall>v \<in> issued (world s). \<forall>a b.
              TimeUuid_getDate E v = Inr a \<longrightarrow>
              TimeUuid_getDate E (fst (TimeUuid_now E (world s))) = Inr b \<longrightarrow> a \<le> b"
      unfolding generatorContract_def by blast+
    then show ?thesis
      using w1' s' date by blast
  qed
  have a0: "obj_get (rq_attributes req) (si_tid sch) = JUndefined \<longrightarrow>
            obj_get (rq_attributes stored) (si_tid sch) = JStr (fst (TimeUuid_now E (world s)))"
    using a tid by simp
  from a0 a b c d f g h show ?thesis by blast
qed

theorem put_tid_and_timestamp_witness:
  "obj_get (rq_attributes (emptyRequest\<lparr>rq_table := Some ''t'', rq_attributes := [(''key'', JStr ''a'')]\<rparr>)) ''tid'' = JUndefined
   \<and> fst (TimeUuid_now exampleEnv (world revisionsDb)) = ''t3''
   \<and> fst (Date_getTime exampleEnv (world revisionsDb)) = 5000
   \<and> obj_get (rq_attributes (fst (snd (u_put exampleEnv ''d_t''
          (emptyRequest\<lparr>rq_table := Some ''t'', rq_attributes := [(''key'', JStr ''a'')]\<rparr>) None revisionsDb)))) ''tid''
       = JStr ''t3''
   \<and> rq_timestamp (fst (snd (u_put exampleEnv ''d_t''
          (emptyRequest\<lparr>rq_table := Some ''t'', rq_attributes := [(''key'', JStr ''a'')]\<rparr>) None revisionsDb)))
       = Some 3000
   \<and> rq_timestamp (fst (snd (u_put exampleEnv ''d_t''
          (emptyRequest\<lparr>rq_table := Some ''t'', rq_attributes := [(''key'', JStr ''a''), (''tid'', JStr ''t1'')]\<rparr>)
          None revisionsDb)))
       = Some 1000
   \<and> generatorContract counterEnv counterIssued
   \<and> obj_get (rq_attributes (fst (snd (u_put counterEnv ''d_t''
          (emptyRequest\<lparr>rq_table := Some ''t'', rq_attributes := [(''key'', JStr ''a'')]\<rparr>) None revisionsDb)))) ''tid''
       = JStr ''u''
   \<and> ''u'' \<notin> counterIssued (world revisionsDb)
   \<and> counterIssued (snd (TimeUuid_now counterEnv (world revisionsDb))) = insert ''u'' (counterIssued (world revisionsDb))
   \<and> tw_data (world (snd (snd (u_put exampleEnv ''d_t''
          (emptyRequest\<lparr>rq_attributes := [(''key'', JStr ''schema''), (''value'', JStr ''v2'')]\<rparr>)
          (Some ''meta'') revisionsDb)))) = tw_data revisionsWorld
   \<and> tw_meta (world (snd (snd (u_put exampleEnv ''d_t''
          (emptyRequest\<lparr>rq_attributes := [(''key'', JStr ''schema''), (''value'', JStr ''v2'')]\<rparr>)
          (Some ''meta'') revisionsDb))))
       = [[(''key'', JStr ''schema''), (''value'', JStr ''v2''), (''tid'', JStr ''t3'')],
          [(''key'', JStr ''schema''), (''value'', JStr ''v1''), (''tid'', JStr ''t1'')]]"
proof -
  let ?req = "emptyRequest\<lparr>rq_table := Some ''t'', rq_attributes := [(''key'', JStr ''a'')]\<rparr>"
  let ?old = "emptyRequest\<lparr>rq_table := Some ''t'', rq_attributes := [(''key'', JStr ''a''), (''tid'', JStr ''t1'')]\<rparr>"
  let ?row = "emptyRequest\<lparr>rq_attributes := [(''key'', JStr ''schema''), (''value'', JStr ''v2'')]\<rparr>"
  have sch: "putSchema exampleEnv revisionsDb ''d_t'' (tableOrData None) = Some (exampleSchema ''v1'')"
    by (simp add: putSchema_def tableOrData_def cached_def revisionsDb_def)
  have schc: "putSchema counterEnv revisionsDb ''d_t'' (tableOrData None) = Some (exampleSchema ''v1'')"
    by (simp add: putSchema_def tableOrData_def cached_def revisionsDb_def)
  have schm: "putSchema exampleEnv revisionsDb ''d_t'' (tableOrData (Some ''meta'')) = Some exampleInfoSchema"
    by (simp add: putSchema_def tableOrData_def exampleEnv_def)
  have u: "obj_get (rq_attributes ?req) (si_tid (exampleSchema ''v1'')) = JUndefined"
    by (simp add: obj_get_def emptyRequest_def exampleSchema_def)
  have g: "fst (TimeUuid_now exampleEnv (world revisionsDb)) = ''t3''"
    by (simp add: example_defs)
  have gc: "fst (TimeUuid_now counterEnv (world revisionsDb)) = ''u''"
    by (simp add: counterEnv_def example_defs)
  have str: "js_toString (if truthy (obj_get (rq_attributes ?req) (si_tid (exampleSchema ''v1'')))
                          then obj_get (rq_attributes ?req) (si_tid (exampleSchema ''v1''))
                          else JStr (fst (TimeUuid_now exampleEnv (world revisionsDb)))) = Some ''t3''"
    by (simp add: obj_get_def emptyRequest_def exampleSchema_def g)
  have strc: "js_toString (if truthy (obj_get (rq_attributes ?req) (si_tid (exampleSchema ''v1'')))
                          then obj_get (rq_attributes ?req) (si_tid (exampleSchema ''v1''))
                          else JStr (fst (TimeUuid_now counterEnv (world revisionsDb)))) = Some ''u''"
    by (simp add: obj_get_def emptyRequest_def exampleSchema_def gc)
  have strm: "js_toString (if truthy (obj_get (rq_attributes ?row) (si_tid exampleInfoSchema))
                          then obj_get (rq_attributes ?row) (si_tid exampleInfoSchema)
                          else JStr (fst (TimeUuid_now exampleEnv (world revisionsDb)))) = Some ''t3''"
    by (simp add: obj_get_def emptyRequest_def exampleInfoSchema_def g)
  have date: "TimeUuid_getDate exampleEnv ''t3'' = Inr 3000"
    by (simp add: exampleEnv_def)
  have datec: "TimeUuid_getDate counterEnv ''u'' = Inr 1"
    by (simp add: counterEnv_def)
  have str': "js_toString (if truthy (obj_get (rq_attributes ?old) (si_tid (exampleSchema ''v1'')))
                          then obj_get (rq_attributes ?old) (si_tid (exampleSchema ''v1''))
                          else JStr (fst (TimeUuid_now exampleEnv (world revisionsDb)))) = Some ''t1''"
    by (simp add: obj_get_def emptyRequest_def exampleSchema_def)
  have date': "TimeUuid_getDate exampleEnv ''t1'' = Inr 1000"
    by (simp add: exampleEnv_def)
  have contract: "generatorContract counterEnv counterIssued"
    by (rule counter_contract)
  note t = put_tid_and_timestamp [OF sch refl str date refl refl refl refl]
  note t' = put_tid_and_timestamp [OF sch refl str' date' refl refl refl refl]
  note tc = put_tid_and_timestamp [OF schc refl strc datec refl refl refl refl, of counterIssued]
  note tm = put_tid_and_timestamp [OF schm refl strm date refl refl refl refl]
  have a: "obj_get (rq_attributes (fst (snd (u_put exampleEnv ''d_t'' ?req None revisionsDb)))) ''tid'' = JStr ''t3''"
    using t [THEN conjunct1] u g by (simp add: exampleSchema_def)
  have b: "rq_timestamp (fst (snd (u_put exampleEnv ''d_t'' ?req None revisionsDb))) = Some 3000"
    using t [THEN conjunct2, THEN conjunct2, THEN conjunct1] .
  have c: "rq_timestamp (fst (snd (u_put exampleEnv ''d_t'' ?old None revisionsDb))) = Some 1000"
    using t' [THEN conjunct2, THEN conjunct2, THEN conjunct1] .
  have d: "fst (Date_getTime exampleEnv (world revisionsDb)) = 5000"
    by (simp add: example_defs)
  have e: "obj_get (rq_attributes ?req) ''tid'' = JUndefined"
    by (simp add: obj_get_def emptyRequest_def)
  have ac: "obj_get (rq_attributes (fst (snd (u_put counterEnv ''d_t'' ?req None revisionsDb)))) ''tid'' = JStr ''u''"
    using tc [THEN conjunct1] u gc by (simp add: exampleSchema_def)
  have fresh: "''u'' \<notin> counterIssued (world revisionsDb)
     \<and> counterIssued (snd (TimeUuid_now counterEnv (world revisionsDb))) = insert ''u'' (counterIssued (world revisionsDb))"
    using tc [THEN conjunct2, THEN conjunct2, THEN conjunct2, THEN conjunct2, THEN conjunct2,
              THEN conjunct2, THEN conjunct2] u contract gc
    by simp
  have md: "tw_data (world (snd (snd (u_put exampleEnv ''d_t'' ?row (Some ''meta'') revisionsDb)))) = tw_data revisionsWorld"
    and mm: "tw_meta (world (snd (snd (u_put exampleEnv ''d_t'' ?row (Some ''meta'') revisionsDb))))
       = [[(''key'', JStr ''schema''), (''value'', JStr ''v2''), (''tid'', JStr ''t3'')],
          [(''key'', JStr ''schema''), (''value'', JStr ''v1''), (''tid'', JStr ''t1'')]]"
    using tm [THEN conjunct2, THEN conjunct2, THEN conjunct2, THEN conjunct2, THEN conjunct2,
              THEN conjunct2, THEN conjunct1]
    by (simp_all add: write_defs tableOrData_def obj_get_def emptyRequest_def example_defs Let_def)
  from a b c d e g contract ac fresh md mm show ?thesis by simp
qed

text \<open>
  C9. The request object the caller passed is changed by the put, and the change is there
  when the call returns, whether the engine then accepts the batch or not: when the
  attribute map has no truthy \<open>tid\<close>, the generated one is written into \<open>attributes\<close>;
  in both cases \<open>timestamp\<close> is overwritten with the date decoded from the \<open>tid\<close> used.
  Nothing else in the request changes.
\<close>

theorem put_mutates_request:
  assumes schema: "putSchema E s keyspace (tableOrData table) = Some sch"
    and tid: "tidUsed = (if truthy (obj_get (rq_attributes req) (si_tid sch))
                         then obj_get (rq_attributes req) (si_tid sch)
                         else JStr (fst (TimeUuid_now E (world s))))"
    and str: "js_toString tidUsed = Some str"
    and date: "TimeUuid_getDate E str = Inr date"
  shows "fst (snd (u_put E keyspace req table s)) =
           req\<lparr>rq_attributes :=
                  (if truthy (obj_get (rq_attributes req) (si_tid sch)) then rq_attributes req
                   else obj_set (rq_attributes req) (si_tid sch) (JStr (fst (TimeUuid_now E (world s))))),
               rq_timestamp := Some date\<rparr>"
  using put_write_request(1) [OF schema tid str date] by (simp add: u_put_request)

theorem put_mutates_request_witness:
  "fst (snd (u_put exampleEnv ''d_t''
       (emptyRequest\<lparr>rq_table := Some ''t'', rq_attributes := [(''key'', JStr ''a'')]\<rparr>) None revisionsDb))
     = \<lparr>rq_table = Some ''t'', rq_attributes = [(''key'', JStr ''a''), (''tid'', JStr ''t3'')],
        rq_limit = None, rq_next = None, rq_order = [], rq_timestamp = Some 3000\<rparr>"
proof -
  let ?req = "emptyRequest\<lparr>rq_table := Some ''t'', rq_attributes := [(''key'', JStr ''a'')]\<rparr>"
  have sch: "putSchema exampleEnv revisionsDb ''d_t'' (tableOrData None) = Some (exampleSchema ''v1'')"
    by (simp add: putSchema_def tableOrData_def cached_def revisionsDb_def)
  have u: "obj_get (rq_attributes ?req) (si_tid (exampleSchema ''v1'')) = JUndefined"
    by (simp add: obj_get_def emptyRequest_def exampleSchema_def)
  have g: "fst (TimeUuid_now exampleEnv (world revisionsDb)) = ''t3''"
    by (simp add: example_defs)
  have str: "js_toString (if truthy (obj_get (rq_attributes ?req) (si_tid (exampleSchema ''v1'')))
                          then obj_get (rq_attributes ?req) (si_tid (exampleSchema ''v1''))
                          else JStr (fst (TimeUuid_now exampleEnv (world revisionsDb)))) = Some ''t3''"
    by (simp add: obj_get_def emptyRequest_def exampleSchema_def g)
  have date: "TimeUuid_getDate exampleEnv ''t3'' = Inr 3000"
    by (simp add: exampleEnv_def)
  from put_mutates_request [OF sch refl str date] u g show ?thesis
    by (simp add: emptyRequest_def exampleSchema_def)
qed



end
